theory Spec2Isabelle
  imports Complex_Main
begin

section \<open>The trading terminal as seen by \<^verbatim>\<open>trade.py\<close>\<close>

text \<open>
  \<^verbatim>\<open>trade.py\<close> talks to the MetaTrader5 terminal through four calls:
  \<^verbatim>\<open>mt5.positions_get\<close>, \<^verbatim>\<open>mt5.symbol_info_tick\<close>, \<^verbatim>\<open>mt5.order_send\<close> and the wall clock
  \<^verbatim>\<open>datetime.now()\<close>. The terminal is not part of the repository, so it is a parameter of
  the model: a record of functions over an arbitrary world \<open>'w\<close>. Every call returns its
  answer together with the next world, so the world may change between any two calls
  (prices move, time passes, the broker closes a position). Prices, volumes and profits
  are Python floats; they are modelled as exact rationals (rounding is not modelled), and
  a time is the number of seconds since some epoch.
\<close>

datatype order_type = ORDER_TYPE_BUY | ORDER_TYPE_SELL

record position =
  ticket :: int
  ptype :: order_type
  price_open :: rat
  volume :: rat
  magic :: int

record tick =
  bid :: rat
  ask :: rat

text \<open>The request dictionaries of lines 97-107 and 143-162; the keys \<^verbatim>\<open>position\<close>,
  \<^verbatim>\<open>magic\<close> and \<^verbatim>\<open>comment\<close> are present in closing requests only.\<close>

record request =
  req_action :: nat
  req_symbol :: string
  req_volume :: rat
  req_type :: order_type
  req_position :: "int option"
  req_price :: rat
  req_deviation :: int
  req_magic :: "int option"
  req_comment :: "string option"

record order_result =
  retcode :: int
  res_order :: int

definition TRADE_ACTION_DEAL :: nat where
  "TRADE_ACTION_DEAL = 1"

definition TRADE_RETCODE_DONE :: int where
  "TRADE_RETCODE_DONE = 10009"

text \<open>\<^verbatim>\<open>positions_get\<close>, \<^verbatim>\<open>symbol_info_tick\<close> and \<^verbatim>\<open>order_send\<close> return \<^verbatim>\<open>None\<close> on failure.\<close>

record 'w terminal =
  positions_get :: "string \<Rightarrow> 'w \<Rightarrow> position list option \<times> 'w"
  symbol_info_tick :: "string \<Rightarrow> 'w \<Rightarrow> tick option \<times> 'w"
  order_send :: "request \<Rightarrow> 'w \<Rightarrow> order_result option \<times> 'w"
  datetime_now :: "'w \<Rightarrow> rat \<times> 'w"

section \<open>\<^verbatim>\<open>TradeExecutor\<close>\<close>

record trade_info =
  start_time :: rat
  entry_price :: rat

record executor =
  trade_amount :: rat
  active_trades :: "int \<rightharpoonup> trade_info"
  last_signal :: "string option"

text \<open>\<^verbatim>\<open>__init__\<close>, lines 7-10.\<close>

definition init :: "rat \<Rightarrow> executor" where
  "init amount = \<lparr>trade_amount = amount, active_trades = Map.empty, last_signal = None\<rparr>"

text \<open>\<^verbatim>\<open>calculate_profit\<close>, lines 12-18.\<close>

definition calculate_profit :: "position \<Rightarrow> rat \<Rightarrow> rat" where
  "calculate_profit position current_price =
     (if ptype position = ORDER_TYPE_BUY
      then (current_price - price_open position) * volume position * 100000
      else (price_open position - current_price) * volume position * 100000)"

text \<open>\<^verbatim>\<open>get_position_type\<close>, lines 25-30.\<close>

definition get_position_type :: "'w terminal \<Rightarrow> string \<Rightarrow> 'w \<Rightarrow> string option \<times> 'w" where
  "get_position_type mt5 symbol w =
     (case positions_get mt5 symbol w of
        (Some (p # ps), w1) \<Rightarrow>
          (Some (if ptype p = ORDER_TYPE_BUY then ''buy'' else ''sell''), w1)
      | (_, w1) \<Rightarrow> (None, w1))"

text \<open>
  \<^verbatim>\<open>close_trade\<close>, lines 74-118. The loop of lines 82-115 runs over the positions fetched
  at line 77. An \<^verbatim>\<open>AttributeError\<close> (the tick or the order result is \<^verbatim>\<open>None\<close>) leaves the
  loop for the handler of line 117, which logs and returns: the remaining positions are
  not visited.
\<close>

definition close_request :: "string \<Rightarrow> position \<Rightarrow> order_type \<Rightarrow> rat \<Rightarrow> request" where
  "close_request symbol p otype price =
     \<lparr>req_action = TRADE_ACTION_DEAL, req_symbol = symbol, req_volume = volume p,
      req_type = otype, req_position = Some (ticket p), req_price = price,
      req_deviation = 30, req_magic = Some (magic p),
      req_comment = Some ''Closing position''\<rparr>"

fun close_loop ::
  "'w terminal \<Rightarrow> string \<Rightarrow> string option \<Rightarrow> int option \<Rightarrow> position list \<Rightarrow>
   executor \<times> 'w \<Rightarrow> executor \<times> 'w" where
  "close_loop mt5 symbol position_type position_ticket [] (self, w) = (self, w)"
| "close_loop mt5 symbol position_type position_ticket (p # ps) (self, w) =
     (if position_ticket \<noteq> None \<and> Some (ticket p) \<noteq> position_ticket
      then close_loop mt5 symbol position_type position_ticket ps (self, w)
      else if position_type \<noteq> None \<and>
              ((ptype p = ORDER_TYPE_BUY \<and> position_type \<noteq> Some ''buy'') \<or>
               (ptype p = ORDER_TYPE_SELL \<and> position_type \<noteq> Some ''sell''))
      then close_loop mt5 symbol position_type position_ticket ps (self, w)
      else
        (let otype = (if ptype p = ORDER_TYPE_BUY then ORDER_TYPE_SELL else ORDER_TYPE_BUY)
         in case symbol_info_tick mt5 symbol w of
              (None, w1) \<Rightarrow> (self, w1)
            | (Some t, w1) \<Rightarrow>
                (let price = (if otype = ORDER_TYPE_SELL then bid t else ask t)
                 in case order_send mt5 (close_request symbol p otype price) w1 of
                      (None, w2) \<Rightarrow> (self, w2)
                    | (Some result, w2) \<Rightarrow>
                        if retcode result \<noteq> TRADE_RETCODE_DONE
                        then close_loop mt5 symbol position_type position_ticket ps (self, w2)
                        else close_loop mt5 symbol position_type position_ticket ps
                               (self\<lparr>active_trades := (active_trades self)(ticket p := None)\<rparr>,
                                w2))))"

definition close_trade ::
  "'w terminal \<Rightarrow> string \<Rightarrow> string option \<Rightarrow> int option \<Rightarrow> executor \<times> 'w \<Rightarrow> executor \<times> 'w"
  where
  "close_trade mt5 symbol position_type position_ticket sw =
     (case sw of (self, w) \<Rightarrow>
        (case positions_get mt5 symbol w of
           (None, w1) \<Rightarrow> (self, w1)
         | (Some [], w1) \<Rightarrow> (self, w1)
         | (Some (p # ps), w1) \<Rightarrow>
             close_loop mt5 symbol position_type position_ticket (p # ps) (self, w1)))"

text \<open>
  The exit policy of \<^verbatim>\<open>manage_trades\<close>, lines 56-69: which of the three
  \<^verbatim>\<open>close_trade\<close> calls (lines 61, 66, 69) is reached, if any. The three calls are the
  same call; they differ in the message logged before.
\<close>

datatype close_site = Closing_profitable | At_stop_loss | At_profit_target

definition exit_policy :: "rat \<Rightarrow> rat \<Rightarrow> close_site option" where
  "exit_policy time_open profit =
     (if time_open \<ge> 60 then
        (if profit > 0 then Some Closing_profitable
         else if profit \<le> - 5 then Some At_stop_loss
         else if profit \<ge> 2 then Some At_profit_target
         else None)
      else None)"

text \<open>
  \<^verbatim>\<open>manage_trades\<close>, lines 34-72. \<^verbatim>\<open>current_time\<close> and \<^verbatim>\<open>current_tick\<close> are read once,
  before the loop. \<^verbatim>\<open>current_tick.bid\<close> raises when the tick is \<^verbatim>\<open>None\<close>; the handler of
  line 71 logs and returns.
\<close>

fun manage_loop ::
  "'w terminal \<Rightarrow> string \<Rightarrow> rat \<Rightarrow> tick option \<Rightarrow> position list \<Rightarrow>
   executor \<times> 'w \<Rightarrow> executor \<times> 'w" where
  "manage_loop mt5 symbol current_time current_tick [] (self, w) = (self, w)"
| "manage_loop mt5 symbol current_time current_tick (p # ps) (self, w) =
     (case active_trades self (ticket p) of
        None \<Rightarrow> manage_loop mt5 symbol current_time current_tick ps (self, w)
      | Some info \<Rightarrow>
          (let time_open = current_time - start_time info
           in case current_tick of
                None \<Rightarrow> (self, w)
              | Some t \<Rightarrow>
                  (let current_price = (if ptype p = ORDER_TYPE_BUY then bid t else ask t);
                       profit = calculate_profit p current_price
                   in case exit_policy time_open profit of
                        Some site \<Rightarrow>
                          manage_loop mt5 symbol current_time current_tick ps
                            (close_trade mt5 symbol None (Some (ticket p)) (self, w))
                      | None \<Rightarrow>
                          manage_loop mt5 symbol current_time current_tick ps (self, w))))"

definition manage_trades :: "'w terminal \<Rightarrow> string \<Rightarrow> executor \<times> 'w \<Rightarrow> executor \<times> 'w" where
  "manage_trades mt5 symbol sw =
     (case sw of (self, w) \<Rightarrow>
        (case positions_get mt5 symbol w of
           (None, w1) \<Rightarrow> (self, w1)
         | (Some [], w1) \<Rightarrow> (self, w1)
         | (Some (p # ps), w1) \<Rightarrow>
             (case datetime_now mt5 w1 of
                (current_time, w2) \<Rightarrow>
                  (case symbol_info_tick mt5 symbol w2 of
                     (current_tick, w3) \<Rightarrow>
                       manage_loop mt5 symbol current_time current_tick (p # ps) (self, w3)))))"

text \<open>
  \<^verbatim>\<open>execute_trade\<close>, lines 120-181. Nothing catches an exception here: when the tick
  (lines 148, 160) or the order result (line 170) is \<^verbatim>\<open>None\<close> the \<^verbatim>\<open>AttributeError\<close>
  reaches the caller, with the executor as mutated so far.
\<close>

datatype 'a outcome = Returned 'a | Raised

definition open_request :: "string \<Rightarrow> rat \<Rightarrow> order_type \<Rightarrow> rat \<Rightarrow> request" where
  "open_request symbol amount otype price =
     \<lparr>req_action = TRADE_ACTION_DEAL, req_symbol = symbol, req_volume = amount,
      req_type = otype, req_position = None, req_price = price,
      req_deviation = 30, req_magic = None, req_comment = None\<rparr>"

text \<open>Lines 168-181: send the order, record the trade when it is done.\<close>

definition send_order ::
  "'w terminal \<Rightarrow> string \<Rightarrow> request \<Rightarrow> executor \<times> 'w \<Rightarrow>
   order_result option outcome \<times> executor \<times> 'w" where
  "send_order mt5 signal req sw =
     (case sw of (self, w) \<Rightarrow>
        (case order_send mt5 req w of
           (None, w1) \<Rightarrow> (Raised, self, w1)
         | (Some result, w1) \<Rightarrow>
             if retcode result = TRADE_RETCODE_DONE then
               (case datetime_now mt5 w1 of
                  (now, w2) \<Rightarrow>
                    (Returned (Some result),
                     self\<lparr>active_trades := (active_trades self)
                             (res_order result \<mapsto> \<lparr>start_time = now, entry_price = req_price req\<rparr>),
                           last_signal := Some signal\<rparr>,
                     w2))
             else (Returned (Some result), self, w1)))"

text \<open>Lines 139-181, entered once the two guards of lines 123 and 131-135 are passed.\<close>

definition trade_logic ::
  "'w terminal \<Rightarrow> string \<Rightarrow> string \<Rightarrow> executor \<times> 'w \<Rightarrow>
   order_result option outcome \<times> executor \<times> 'w" where
  "trade_logic mt5 signal symbol sw =
     (case sw of (self, w1) \<Rightarrow>
        if signal = ''buy'' then
          (case close_trade mt5 symbol (Some ''sell'') None (self, w1) of
             (self1, w2) \<Rightarrow>
               (case symbol_info_tick mt5 symbol w2 of
                  (None, w3) \<Rightarrow> (Raised, self1, w3)
                | (Some t, w3) \<Rightarrow>
                    send_order mt5 signal
                      (open_request symbol (trade_amount self1) ORDER_TYPE_BUY (ask t))
                      (self1, w3)))
        else if signal = ''sell'' then
          (case close_trade mt5 symbol (Some ''buy'') None (self, w1) of
             (self1, w2) \<Rightarrow>
               (case symbol_info_tick mt5 symbol w2 of
                  (None, w3) \<Rightarrow> (Raised, self1, w3)
                | (Some t, w3) \<Rightarrow>
                    send_order mt5 signal
                      (open_request symbol (trade_amount self1) ORDER_TYPE_SELL (bid t))
                      (self1, w3)))
        else (Returned None, self, w1))"

definition execute_trade ::
  "'w terminal \<Rightarrow> string \<Rightarrow> string \<Rightarrow> executor \<times> 'w \<Rightarrow>
   order_result option outcome \<times> executor \<times> 'w" where
  "execute_trade mt5 signal symbol sw =
     (case sw of (self, w) \<Rightarrow>
        if Some signal = last_signal self then (Returned None, self, w)
        else
          (case get_position_type mt5 symbol w of
             (current_position_type, w1) \<Rightarrow>
               if current_position_type \<noteq> None \<and> Some signal = current_position_type
               then (Returned None, self, w1)
               else trade_logic mt5 signal symbol (self, w1)))"

section \<open>Observing the orders sent\<close>

text \<open>
  To speak about the orders a call submits, a terminal is wrapped so that it keeps a
  journal: every \<^verbatim>\<open>order_send\<close> appends the request and the terminal's answer. The
  wrapped terminal answers exactly as the terminal inside it, so what holds of
  \<open>recording mt5\<close> for every \<open>mt5\<close> holds of every terminal.
\<close>

type_synonym journal = "(request \<times> order_result option) list"

definition recording :: "'w terminal \<Rightarrow> ('w \<times> journal) terminal" where
  "recording mt5 =
     \<lparr>positions_get = (\<lambda>symbol wj. case wj of (w, j) \<Rightarrow>
        (case positions_get mt5 symbol w of (r, w1) \<Rightarrow> (r, (w1, j)))),
      symbol_info_tick = (\<lambda>symbol wj. case wj of (w, j) \<Rightarrow>
        (case symbol_info_tick mt5 symbol w of (r, w1) \<Rightarrow> (r, (w1, j)))),
      order_send = (\<lambda>req wj. case wj of (w, j) \<Rightarrow>
        (case order_send mt5 req w of (r, w1) \<Rightarrow> (r, (w1, j @ [(req, r)])))),
      datetime_now = (\<lambda>wj. case wj of (w, j) \<Rightarrow>
        (case datetime_now mt5 w of (r, w1) \<Rightarrow> (r, (w1, j))))\<rparr>"

text \<open>The tickets of the closing requests of a journal that the terminal accepted.\<close>

fun closed_tickets :: "journal \<Rightarrow> int list" where
  "closed_tickets [] = []"
| "closed_tickets ((req, res) # j) =
     (case (req_position req, res) of
        (Some t, Some result) \<Rightarrow>
          if retcode result = TRADE_RETCODE_DONE then t # closed_tickets j
          else closed_tickets j
      | _ \<Rightarrow> closed_tickets j)"

text \<open>The positions a call to \<^verbatim>\<open>positions_get\<close> in world \<open>w\<close> reports (none on failure).\<close>

definition fetched :: "'w terminal \<Rightarrow> string \<Rightarrow> 'w \<Rightarrow> position list" where
  "fetched mt5 symbol w = (case fst (positions_get mt5 symbol w) of None \<Rightarrow> [] | Some ps \<Rightarrow> ps)"

text \<open>The time \<^verbatim>\<open>manage_trades\<close> reads at line 41, after the positions of line 37.\<close>

definition manage_clock :: "'w terminal \<Rightarrow> string \<Rightarrow> 'w \<Rightarrow> rat" where
  "manage_clock mt5 symbol w = fst (datetime_now mt5 (snd (positions_get mt5 symbol w)))"

text \<open>The call of \<^verbatim>\<open>execute_trade\<close> ended with an opening order that was filled.\<close>

definition filled :: "order_result option outcome \<Rightarrow> bool" where
  "filled out =
     (case out of
        Returned (Some result) \<Rightarrow> retcode result = TRADE_RETCODE_DONE
      | _ \<Rightarrow> False)"

text \<open>Vocabulary of the proofs: a position passes the two filters of lines 84-91; the
  request of lines 93-107 for it; what a journal segment says about two executors.\<close>

definition passes :: "string option \<Rightarrow> int option \<Rightarrow> position \<Rightarrow> bool" where
  "passes pt ptk p \<longleftrightarrow>
     \<not> (ptk \<noteq> None \<and> Some (ticket p) \<noteq> ptk) \<and>
     \<not> (pt \<noteq> None \<and> ((ptype p = ORDER_TYPE_BUY \<and> pt \<noteq> Some ''buy'') \<or>
               (ptype p = ORDER_TYPE_SELL \<and> pt \<noteq> Some ''sell'')))"

definition closing :: "string \<Rightarrow> position \<Rightarrow> tick \<Rightarrow> request" where
  "closing symbol p t =
     close_request symbol p
       (if ptype p = ORDER_TYPE_BUY then ORDER_TYPE_SELL else ORDER_TYPE_BUY)
       (if (if ptype p = ORDER_TYPE_BUY then ORDER_TYPE_SELL else ORDER_TYPE_BUY) = ORDER_TYPE_SELL
        then bid t else ask t)"

definition journal_ok :: "executor \<Rightarrow> executor \<Rightarrow> journal \<Rightarrow> bool" where
  "journal_ok self self' new \<longleftrightarrow>
     active_trades self' = active_trades self |` (- set (closed_tickets new)) \<and>
     last_signal self' = last_signal self \<and> trade_amount self' = trade_amount self"

section \<open>A simulated broker\<close>

text \<open>
  A terminal to run the model on: it holds the open positions, one tick, a clock and the
  answers it will give to the next orders. An accepted closing request removes the
  position of that ticket; an accepted opening request adds a position whose ticket is
  the order number of the answer.
\<close>

record sim =
  sim_positions :: "position list"
  sim_tick :: "tick option"
  sim_clock :: rat
  sim_replies :: "order_result option list"

definition sim_fill :: "request \<Rightarrow> order_result \<Rightarrow> position list \<Rightarrow> position list" where
  "sim_fill req result ps =
     (case req_position req of
        Some t \<Rightarrow> filter (\<lambda>p. ticket p \<noteq> t) ps
      | None \<Rightarrow>
          ps @ [\<lparr>ticket = res_order result, ptype = req_type req, price_open = req_price req,
                 volume = req_volume req, magic = 0\<rparr>])"

definition sim_send :: "request \<Rightarrow> sim \<Rightarrow> order_result option \<times> sim" where
  "sim_send req w =
     (case sim_replies w of
        [] \<Rightarrow> (None, w)
      | None # rs \<Rightarrow> (None, w\<lparr>sim_replies := rs\<rparr>)
      | Some result # rs \<Rightarrow>
          (Some result,
           if retcode result = TRADE_RETCODE_DONE
           then w\<lparr>sim_positions := sim_fill req result (sim_positions w), sim_replies := rs\<rparr>
           else w\<lparr>sim_replies := rs\<rparr>))"

definition broker :: "sim terminal" where
  "broker =
     \<lparr>positions_get = (\<lambda>symbol w. (Some (sim_positions w), w)),
      symbol_info_tick = (\<lambda>symbol w. (sim_tick w, w)),
      order_send = sim_send,
      datetime_now = (\<lambda>w. (sim_clock w, w))\<rparr>"

definition accept :: "int \<Rightarrow> order_result option" where
  "accept n = Some \<lparr>retcode = TRADE_RETCODE_DONE, res_order = n\<rparr>"

definition reject :: "order_result option" where
  "reject = Some \<lparr>retcode = 10006, res_order = 0\<rparr>"

text \<open>Shorthands for the runs below: a position of 0.01 lots, a market with one price for
  bid and ask, and an executor that holds the given shadow entries.\<close>

definition pos :: "int \<Rightarrow> order_type \<Rightarrow> rat \<Rightarrow> position" where
  "pos n ty price = \<lparr>ticket = n, ptype = ty, price_open = price, volume = 1 / 100, magic = 0\<rparr>"

definition market :: "position list \<Rightarrow> rat \<Rightarrow> rat \<Rightarrow> order_result option list \<Rightarrow> sim" where
  "market ps price clock replies =
     \<lparr>sim_positions = ps, sim_tick = Some \<lparr>bid = price, ask = price\<rparr>, sim_clock = clock,
      sim_replies = replies\<rparr>"

definition holding :: "(int \<times> rat \<times> rat) list \<Rightarrow> string option \<Rightarrow> executor" where
  "holding entries sig =
     \<lparr>trade_amount = 1 / 100,
      active_trades = map_of (map (\<lambda>(n, t, price). (n, \<lparr>start_time = t, entry_price = price\<rparr>)) entries),
      last_signal = sig\<rparr>"

section \<open>\<^verbatim>\<open>strategy.py\<close>: data frames\<close>

text \<open>
  A pandas \<^verbatim>\<open>DataFrame\<close> is a number of rows and a dictionary from column names to
  columns. The rows are labelled \<open>0, 1, ...\<close>, as \<^verbatim>\<open>fetch_data\<close> builds them. A float cell
  is a finite float64 value, which is a rational number, or NaN (\<open>None\<close>). An object cell is
  \<^verbatim>\<open>None\<close> or a string that is not a number. Only what \<^verbatim>\<open>apply_strategy\<close> uses of pandas
  is modelled.

  Two computations of \<^verbatim>\<open>apply_strategy\<close> round: the rolling mean of lines 16-17 and the
  trend strength of line 32. What float64 makes of them is a parameter of the model: \<open>wm\<close>
  gives the rolling mean of a window at a row of a column, \<open>st\<close> the trend strength of two
  cells. \<open>window_mean\<close> and \<open>strength\<close> below are the two in exact arithmetic.
  Comparisons of floats and the difference of two 0/1 indicators are exact in float64.
\<close>

datatype column = Floats "rat option list" | Ints "int list" | Objects "string option list"

record frame =
  nrows :: nat
  columns :: "string \<rightharpoonup> column"

datatype exn = KeyError string | DataError | TypeError

definition and_then :: "exn + 'a \<Rightarrow> ('a \<Rightarrow> exn + 'b) \<Rightarrow> exn + 'b" where
  "and_then r f = (case r of Inl e \<Rightarrow> Inl e | Inr x \<Rightarrow> f x)"

text \<open>\<^verbatim>\<open>data[name]\<close> raises \<^verbatim>\<open>KeyError\<close> for a missing column; \<^verbatim>\<open>data[name] = c\<close>
  adds or replaces the column in place.\<close>

definition getitem :: "frame \<Rightarrow> string \<Rightarrow> exn + column" where
  "getitem data name =
     (case columns data name of None \<Rightarrow> Inl (KeyError name) | Some c \<Rightarrow> Inr c)"

definition setitem :: "frame \<Rightarrow> string \<Rightarrow> column \<Rightarrow> frame" where
  "setitem data name c = data\<lparr>columns := (columns data)(name \<mapsto> c)\<rparr>"

text \<open>Arithmetic reads a numeric column as floats; on a column of strings it raises.\<close>

fun as_floats :: "column \<Rightarrow> exn + rat option list" where
  "as_floats (Floats xs) = Inr xs"
| "as_floats (Ints xs) = Inr (map (\<lambda>x. Some (of_int x)) xs)"
| "as_floats (Objects xs) = Inl TypeError"

text \<open>
  \<^verbatim>\<open>rolling(window=k).mean()\<close> casts the column to float64 first: a numeric column as it
  is, an object column with \<^verbatim>\<open>None\<close> read as NaN; a cell that is not a number makes pandas
  raise \<^verbatim>\<open>DataError\<close>. The result has one float per row, \<open>wm k xs i\<close> at row \<open>i\<close>.
\<close>

fun to_float64 :: "column \<Rightarrow> exn + rat option list" where
  "to_float64 (Objects xs) =
     (if list_all (\<lambda>x. x = None) xs then Inr (map (\<lambda>x. None) xs) else Inl DataError)"
| "to_float64 c = as_floats c"

definition rolling_with ::
  "(nat \<Rightarrow> rat option list \<Rightarrow> nat \<Rightarrow> rat option) \<Rightarrow> nat \<Rightarrow> column \<Rightarrow> exn + column" where
  "rolling_with wm window c =
     and_then (to_float64 c) (\<lambda>xs. Inr (Floats (map (wm window xs) [0..<length xs])))"

text \<open>
  The rolling mean in exact arithmetic: the mean of the last \<open>k\<close> cells, NaN while fewer
  than \<open>k\<close> cells are there or when one of them is NaN (\<^verbatim>\<open>min_periods\<close> is the window).
\<close>

definition mean :: "rat option list \<Rightarrow> rat option" where
  "mean xs =
     (if list_all (\<lambda>x. x \<noteq> None) xs
      then Some (sum_list (map the xs) / of_nat (length xs)) else None)"

definition window_mean :: "nat \<Rightarrow> rat option list \<Rightarrow> nat \<Rightarrow> rat option" where
  "window_mean window xs i =
     (if i + 1 < window then None else mean (take window (drop (i + 1 - window) xs)))"

text \<open>
  Float operations on cells. A comparison with NaN is false. \<open>x / 0\<close> is an infinity or
  NaN in pandas, never an exception; the only reader of the quotient of line 32 is the
  comparison \<^verbatim>\<open>< min_trend_strength\<close> of line 36, which is false for \<open>+inf\<close> and for NaN alike,
  so such a cell is \<open>None\<close> (and a cell \<open>-inf\<close>, which needs a mean that is a negative
  zero, compares as any negative number does).
\<close>

fun fgt :: "rat option \<Rightarrow> rat option \<Rightarrow> bool" where
  "fgt (Some a) (Some b) = (a > b)"
| "fgt _ _ = False"

fun flt :: "rat option \<Rightarrow> rat option \<Rightarrow> bool" where
  "flt (Some a) (Some b) = (a < b)"
| "flt _ _ = False"

fun feq :: "rat option \<Rightarrow> rat option \<Rightarrow> bool" where
  "feq (Some a) (Some b) = (a = b)"
| "feq _ _ = False"

fun fsub :: "rat option \<Rightarrow> rat option \<Rightarrow> rat option" where
  "fsub (Some a) (Some b) = Some (a - b)"
| "fsub _ _ = None"

fun fmul :: "rat option \<Rightarrow> rat option \<Rightarrow> rat option" where
  "fmul (Some a) (Some b) = Some (a * b)"
| "fmul _ _ = None"

fun fdiv :: "rat option \<Rightarrow> rat option \<Rightarrow> rat option" where
  "fdiv (Some a) (Some b) = (if b = 0 then None else Some (a / b))"
| "fdiv _ _ = None"

definition fabs :: "rat option \<Rightarrow> rat option" where
  "fabs x = map_option abs x"

text \<open>Column operations: \<^verbatim>\<open>c1 > c2\<close>, \<^verbatim>\<open>.astype(int)\<close>, \<^verbatim>\<open>.diff()\<close> (NaN in the first
  row), \<^verbatim>\<open>c == v\<close>, \<^verbatim>\<open>c < v\<close>.\<close>

definition gt_cols :: "column \<Rightarrow> column \<Rightarrow> exn + bool list" where
  "gt_cols c1 c2 =
     and_then (as_floats c1) (\<lambda>xs. and_then (as_floats c2) (\<lambda>ys. Inr (map2 fgt xs ys)))"

definition astype_int :: "bool list \<Rightarrow> column" where
  "astype_int bs = Ints (map (\<lambda>b. if b then 1 else 0) bs)"

definition diff :: "column \<Rightarrow> exn + column" where
  "diff c =
     and_then (as_floats c)
       (\<lambda>xs. Inr (Floats (map (\<lambda>i. if i = 0 then None else fsub (xs ! i) (xs ! (i - 1)))
                             [0..<length xs])))"

definition eq_scalar :: "column \<Rightarrow> rat \<Rightarrow> exn + bool list" where
  "eq_scalar c v = and_then (as_floats c) (\<lambda>xs. Inr (map (\<lambda>x. feq x (Some v)) xs))"

definition lt_scalar :: "column \<Rightarrow> rat \<Rightarrow> exn + bool list" where
  "lt_scalar c v = and_then (as_floats c) (\<lambda>xs. Inr (map (\<lambda>x. flt x (Some v)) xs))"

text \<open>Line 32, \<^verbatim>\<open>abs(short - long) / long * 100\<close>, cell by cell: \<open>st s l\<close> is the float64
  value for the cells \<open>s\<close> and \<open>l\<close>; \<open>strength\<close> is the value in exact arithmetic.\<close>

definition trend_with ::
  "(rat option \<Rightarrow> rat option \<Rightarrow> rat option) \<Rightarrow> column \<Rightarrow> column \<Rightarrow> exn + column" where
  "trend_with st c1 c2 =
     and_then (as_floats c1) (\<lambda>xs. and_then (as_floats c2) (\<lambda>ys.
       Inr (Floats (map2 st xs ys))))"

definition strength :: "rat option \<Rightarrow> rat option \<Rightarrow> rat option" where
  "strength s l = fmul (fdiv (fabs (fsub s l)) l) (Some 100)"

text \<open>\<^verbatim>\<open>data.loc[rows, name] = v\<close> on a column of objects, and
  \<^verbatim>\<open>data.drop(names, axis=1)\<close>, which raises \<^verbatim>\<open>KeyError\<close> when a name is not a column.\<close>

definition loc_set :: "frame \<Rightarrow> bool list \<Rightarrow> string \<Rightarrow> string option \<Rightarrow> exn + frame" where
  "loc_set data rows name v =
     and_then (getitem data name)
       (\<lambda>c. case c of
          Objects xs \<Rightarrow>
            Inr (setitem data name (Objects (map2 (\<lambda>r x. if r then v else x) rows xs)))
        | _ \<Rightarrow> Inl TypeError)"

definition drop_cols :: "frame \<Rightarrow> string list \<Rightarrow> exn + frame" where
  "drop_cols data names =
     (case filter (\<lambda>n. columns data n = None) names of
        [] \<Rightarrow> Inr (data\<lparr>columns := (\<lambda>n. if n \<in> set names then None else columns data n)\<rparr>)
      | n # ns \<Rightarrow> Inl (KeyError n))"

section \<open>\<^verbatim>\<open>apply_strategy\<close>\<close>

definition min_trend_strength :: rat where
  "min_trend_strength = 1 / 1000"

text \<open>
  The statements of the \<^verbatim>\<open>try\<close> block, lines 16-46, in order (the logging of lines 13 and
  38-43 reads the frame only). Each either raises, leaving the frame as it is, or yields
  the frame it has changed.
\<close>

definition statements_with ::
  "(nat \<Rightarrow> rat option list \<Rightarrow> nat \<Rightarrow> rat option) \<Rightarrow> (rat option \<Rightarrow> rat option \<Rightarrow> rat option) \<Rightarrow>
   (frame \<Rightarrow> exn + frame) list" where
  "statements_with wm st =
     [\<lambda>data. and_then (getitem data ''close'') (\<lambda>c. and_then (rolling_with wm 3 c)
               (\<lambda>m. Inr (setitem data ''SMA_Short'' m))),
      \<lambda>data. and_then (getitem data ''close'') (\<lambda>c. and_then (rolling_with wm 7 c)
               (\<lambda>m. Inr (setitem data ''SMA_Long'' m))),
      \<lambda>data. Inr (setitem data ''signal'' (Objects (replicate (nrows data) None))),
      \<lambda>data. and_then (getitem data ''SMA_Short'') (\<lambda>s. and_then (getitem data ''SMA_Long'')
               (\<lambda>l. and_then (gt_cols s l)
               (\<lambda>bs. Inr (setitem data ''crossover'' (astype_int bs))))),
      \<lambda>data. and_then (getitem data ''crossover'') (\<lambda>c. and_then (diff c)
               (\<lambda>d. Inr (setitem data ''crossover_change'' d))),
      \<lambda>data. and_then (getitem data ''crossover_change'') (\<lambda>c. and_then (eq_scalar c 1)
               (\<lambda>rows. loc_set data rows ''signal'' (Some ''buy''))),
      \<lambda>data. and_then (getitem data ''crossover_change'') (\<lambda>c. and_then (eq_scalar c (- 1))
               (\<lambda>rows. loc_set data rows ''signal'' (Some ''sell''))),
      \<lambda>data. and_then (getitem data ''SMA_Short'') (\<lambda>s. and_then (getitem data ''SMA_Long'')
               (\<lambda>l. and_then (trend_with st s l)
               (\<lambda>t. Inr (setitem data ''trend_strength'' t)))),
      \<lambda>data. and_then (getitem data ''trend_strength'')
               (\<lambda>t. and_then (lt_scalar t min_trend_strength)
               (\<lambda>rows. loc_set data rows ''signal'' None)),
      \<lambda>data. drop_cols data [''crossover'', ''crossover_change'', ''trend_strength'']]"

text \<open>
  Running the block: the frame is changed in place, so when a statement raises, the
  handler of line 51 sees the frame as the statements before it have left it.
\<close>

fun run :: "(frame \<Rightarrow> exn + frame) list \<Rightarrow> frame \<Rightarrow> exn \<times> frame + frame" where
  "run [] data = Inr data"
| "run (s # ss) data = (case s data of Inl e \<Rightarrow> Inl (e, data) | Inr data' \<Rightarrow> run ss data')"

text \<open>\<^verbatim>\<open>apply_strategy\<close>, lines 7-53: both the block (line 49) and the handler (line 53)
  return \<^verbatim>\<open>data\<close>.\<close>

definition apply_strategy_with ::
  "(nat \<Rightarrow> rat option list \<Rightarrow> nat \<Rightarrow> rat option) \<Rightarrow> (rat option \<Rightarrow> rat option \<Rightarrow> rat option) \<Rightarrow>
   frame \<Rightarrow> frame" where
  "apply_strategy_with wm st data =
     (case run (statements_with wm st) data of
        Inr data' \<Rightarrow> data'
      | Inl (e, data') \<Rightarrow> data')"

text \<open>The block and the function in exact arithmetic.\<close>

definition statements :: "(frame \<Rightarrow> exn + frame) list" where
  "statements = statements_with window_mean strength"

definition apply_strategy :: "frame \<Rightarrow> frame" where
  "apply_strategy data = apply_strategy_with window_mean strength data"

text \<open>A frame of bars with the given closes. The crossover indicator of line 24 at a row,
  read from the two columns of averages: 1 when the short average is above the long one,
  else 0 (also when one of them is NaN).\<close>

definition bars :: "rat list \<Rightarrow> frame" where
  "bars closes = \<lparr>nrows = length closes, columns = [''close'' \<mapsto> Floats (map Some closes)]\<rparr>"

definition indicator :: "rat option list \<Rightarrow> rat option list \<Rightarrow> nat \<Rightarrow> int" where
  "indicator short long i = (if fgt (short ! i) (long ! i) then 1 else 0)"

text \<open>
  Closes on which rounding shows: at row 6 the three-bar and the seven-bar mean are both
  1.1002 exactly, while the float64 rolling mean of seven bars comes out one unit in the
  last place below, 1.1001999999999998. \<open>tie_mean\<close> is the exact rolling mean with that
  one cell as float64 has it.
\<close>

definition tie_closes :: "rat list" where
  "tie_closes = [11004 / 10000, 11004 / 10000, 10993 / 10000, 11007 / 10000, 1101 / 1000,
                 11 / 10, 10996 / 10000, 10965 / 10000]"

definition tie_mean :: "nat \<Rightarrow> rat option list \<Rightarrow> nat \<Rightarrow> rat option" where
  "tie_mean window xs i =
     (if window = 7 \<and> i = 6 then Some (11001999999999998 / 10000000000000000)
      else window_mean window xs i)"

text \<open>Vocabulary of the proofs: what lines 24-25 compute from the two columns of
  averages, and what lines 21-36 leave in the \<^verbatim>\<open>signal\<close> column of a frame of \<open>n\<close> rows.\<close>

definition change_column :: "rat option list \<Rightarrow> rat option list \<Rightarrow> rat option list" where
  "change_column short long =
     (let xs = map (\<lambda>x. Some (of_int x)) (map (\<lambda>b. if b then 1 else 0) (map2 fgt short long))
      in map (\<lambda>i. if i = 0 then None else fsub (xs ! i) (xs ! (i - 1))) [0..<length xs])"

definition signal_of ::
  "(rat option \<Rightarrow> rat option \<Rightarrow> rat option) \<Rightarrow> nat \<Rightarrow> rat option list \<Rightarrow> rat option list \<Rightarrow>
   string option list" where
  "signal_of st n short long =
     map2 (\<lambda>r x. if r then None else x)
       (map (\<lambda>x. flt x (Some min_trend_strength)) (map2 st short long))
       (map2 (\<lambda>r x. if r then Some ''sell'' else x)
          (map (\<lambda>x. feq x (Some (- 1))) (change_column short long))
          (map2 (\<lambda>r x. if r then Some ''buy'' else x)
             (map (\<lambda>x. feq x (Some 1)) (change_column short long))
             (replicate n None)))"

section \<open>Lemmas on the recording terminal\<close>

lemma rec_tick [simp]:
  "symbol_info_tick (recording mt5) symbol (w, j) =
     (fst (symbol_info_tick mt5 symbol w), (snd (symbol_info_tick mt5 symbol w), j))"
  by (simp add: recording_def split: prod.splits)

lemma rec_positions [simp]:
  "positions_get (recording mt5) symbol (w, j) =
     (fst (positions_get mt5 symbol w), (snd (positions_get mt5 symbol w), j))"
  by (simp add: recording_def split: prod.splits)

lemma rec_now [simp]:
  "datetime_now (recording mt5) (w, j) =
     (fst (datetime_now mt5 w), (snd (datetime_now mt5 w), j))"
  by (simp add: recording_def split: prod.splits)

lemma rec_send [simp]:
  "order_send (recording mt5) req (w, j) =
     (fst (order_send mt5 req w),
      (snd (order_send mt5 req w), j @ [(req, fst (order_send mt5 req w))]))"
  by (simp add: recording_def split: prod.splits)

lemma closed_tickets_append [simp]:
  "closed_tickets (xs @ ys) = closed_tickets xs @ closed_tickets ys"
  by (induction xs rule: closed_tickets.induct) (auto split: option.splits)

lemma journal_ok_refl [simp]: "journal_ok self self []"
  by (simp add: journal_ok_def restrict_map_def)

lemma journal_ok_trans:
  "journal_ok a b xs \<Longrightarrow> journal_ok b c ys \<Longrightarrow> journal_ok a c (xs @ ys)"
  by (auto simp: journal_ok_def restrict_map_def fun_eq_iff)

lemma journal_ok_lookup:
  "journal_ok a b xs \<Longrightarrow> active_trades b t = Some info \<Longrightarrow> active_trades a t = Some info"
  by (auto simp: journal_ok_def restrict_map_def split: if_splits)

lemma close_loop_skip:
  "\<not> passes pt ptk p \<Longrightarrow>
   close_loop mt5 symbol pt ptk (p # ps) (self, w) = close_loop mt5 symbol pt ptk ps (self, w)"
  unfolding passes_def by auto

lemma close_loop_pass:
  "passes pt ptk p \<Longrightarrow>
   close_loop mt5 symbol pt ptk (p # ps) (self, w) =
     (case symbol_info_tick mt5 symbol w of
        (None, w1) \<Rightarrow> (self, w1)
      | (Some t, w1) \<Rightarrow>
          (case order_send mt5 (closing symbol p t) w1 of
             (None, w2) \<Rightarrow> (self, w2)
           | (Some result, w2) \<Rightarrow>
               if retcode result \<noteq> TRADE_RETCODE_DONE
               then close_loop mt5 symbol pt ptk ps (self, w2)
               else close_loop mt5 symbol pt ptk ps
                      (self\<lparr>active_trades := (active_trades self)(ticket p := None)\<rparr>, w2)))"
  unfolding passes_def closing_def
  by (auto simp: Let_def split: prod.splits option.splits)

lemma closing_position [simp]: "req_position (closing symbol p t) = Some (ticket p)"
  by (simp add: closing_def close_request_def)

lemma close_loop_journal:
  "close_loop (recording mt5) symbol pt ptk ps (self, (w, j)) = (self', (w', j')) \<Longrightarrow>
   \<exists>new. j' = j @ new \<and>
     (\<forall>e\<in>set new. \<exists>p\<in>set ps. req_position (fst e) = Some (ticket p) \<and>
         (ptk = None \<or> ptk = Some (ticket p))) \<and>
     journal_ok self self' new"
proof (induction ps arbitrary: self w j)
  case Nil
  then show ?case by simp
next
  case (Cons p ps)
  show ?case
  proof (cases "passes pt ptk p")
    case False
    from Cons.IH [OF Cons.prems [unfolded close_loop_skip [OF False]]]
    show ?thesis by auto
  next
    case True
    then have mine: "ptk = None \<or> ptk = Some (ticket p)" by (auto simp: passes_def)
    note step = Cons.prems [unfolded close_loop_pass [OF True]]
    obtain tk w1 where tk: "symbol_info_tick mt5 symbol w = (tk, w1)" by force
    show ?thesis
    proof (cases tk)
      case None
      then have "self' = self \<and> j' = j" using step tk by simp
      then show ?thesis by simp
    next
      case (Some t)
      let ?req = "closing symbol p t"
      obtain res w2 where res: "order_send mt5 ?req w1 = (res, w2)" by force
      show ?thesis
      proof (cases res)
        case None
        then have "self' = self \<and> j' = j @ [(?req, None)]"
          using step tk Some res by simp
        then show ?thesis using mine by (auto simp: journal_ok_def restrict_map_def)
      next
        case (Some result)
        let ?self1 = "if retcode result \<noteq> TRADE_RETCODE_DONE then self
                      else self\<lparr>active_trades := (active_trades self)(ticket p := None)\<rparr>"
        have "close_loop (recording mt5) symbol pt ptk ps
                (?self1, (w2, j @ [(?req, Some result)])) = (self', (w', j'))"
          using step tk \<open>tk = Some t\<close> res Some by (simp split: if_splits)
        from Cons.IH [OF this] obtain new where
          n: "j' = (j @ [(?req, Some result)]) @ new"
             "\<forall>e\<in>set new. \<exists>p\<in>set ps. req_position (fst e) = Some (ticket p) \<and>
                 (ptk = None \<or> ptk = Some (ticket p))"
             "journal_ok ?self1 self' new" by blast
        have "journal_ok self ?self1 [(?req, Some result)]"
          by (auto simp: journal_ok_def restrict_map_def fun_eq_iff)
        from journal_ok_trans [OF this n(3)]
        have "journal_ok self self' ((?req, Some result) # new)" by simp
        then show ?thesis using n(1,2) mine
          by (intro exI [of _ "(?req, Some result) # new"]) auto
      qed
    qed
  qed
qed

lemma close_trade_journal:
  assumes "close_trade (recording mt5) symbol pt ptk (self, (w, j)) = (self', (w', j'))"
  shows "\<exists>new. j' = j @ new \<and>
     (\<forall>e\<in>set new. \<exists>p\<in>set (fetched mt5 symbol w). req_position (fst e) = Some (ticket p) \<and>
         (ptk = None \<or> ptk = Some (ticket p))) \<and>
     journal_ok self self' new"
proof (cases "fetched mt5 symbol w")
  case Nil
  then have "self' = self \<and> j' = j"
    using assms by (auto simp: close_trade_def fetched_def split: option.splits list.splits)
  then show ?thesis by simp
next
  case (Cons p ps)
  then have "fst (positions_get mt5 symbol w) = Some (p # ps)"
    by (auto simp: fetched_def split: option.splits)
  then have "close_loop (recording mt5) symbol pt ptk (p # ps)
               (self, (snd (positions_get mt5 symbol w), j)) = (self', (w', j'))"
    using assms by (simp add: close_trade_def)
  from close_loop_journal [OF this] show ?thesis by (simp add: Cons)
qed


lemma exit_policy_held: "exit_policy time_open profit = Some site \<Longrightarrow> 60 \<le> time_open"
  by (simp add: exit_policy_def split: if_splits)

lemma manage_loop_journal:
  "manage_loop (recording mt5) symbol now tk ps (self, (w, j)) = (self', (w', j')) \<Longrightarrow>
   \<exists>new. j' = j @ new \<and>
     (\<forall>e\<in>set new. \<exists>p\<in>set ps. \<exists>info. req_position (fst e) = Some (ticket p) \<and>
         active_trades self (ticket p) = Some info \<and> 60 \<le> now - start_time info) \<and>
     journal_ok self self' new"
proof (induction ps arbitrary: self w j)
  case Nil
  then show ?case by simp
next
  case (Cons p ps)
  show ?case
  proof (cases "active_trades self (ticket p)")
    case None
    then have "manage_loop (recording mt5) symbol now tk ps (self, (w, j)) = (self', (w', j'))"
      using Cons.prems by simp
    from Cons.IH [OF this] show ?thesis by auto
  next
    case (Some info)
    note shadow = Some
    show ?thesis
    proof (cases tk)
      case None
      then have "self' = self \<and> j' = j" using Cons.prems shadow by simp
      then show ?thesis by simp
    next
      case (Some t)
      let ?profit = "calculate_profit p (if ptype p = ORDER_TYPE_BUY then bid t else ask t)"
      show ?thesis
      proof (cases "exit_policy (now - start_time info) ?profit")
        case None
        then have "manage_loop (recording mt5) symbol now tk ps (self, (w, j)) = (self', (w', j'))"
          using Cons.prems shadow Some by (simp add: Let_def)
        from Cons.IH [OF this] show ?thesis by auto
      next
        case (Some site)
        then have held: "60 \<le> now - start_time info" by (rule exit_policy_held)
        obtain self1 w1 j1 where
          c: "close_trade (recording mt5) symbol None (Some (ticket p)) (self, (w, j)) =
                (self1, (w1, j1))"
          by (metis surj_pair)
        from close_trade_journal [OF c] obtain new1 where
          n0: "j1 = j @ new1"
              "\<forall>e\<in>set new1. \<exists>q\<in>set (fetched mt5 symbol w).
                 req_position (fst e) = Some (ticket q) \<and>
                 (Some (ticket p) = None \<or> Some (ticket p) = Some (ticket q))"
              "journal_ok self self1 new1" by blast
        have "\<forall>e\<in>set new1. req_position (fst e) = Some (ticket p)"
          using n0(2) by fastforce
        note n1 = n0(1) this n0(3)
        have "manage_loop (recording mt5) symbol now tk ps (self1, (w1, j1)) = (self', (w', j'))"
          using Cons.prems shadow \<open>tk = Some t\<close> Some c by (simp add: Let_def)
        from Cons.IH [OF this] obtain new2 where
          n2: "j' = j1 @ new2"
              "\<forall>e\<in>set new2. \<exists>p\<in>set ps. \<exists>info. req_position (fst e) = Some (ticket p) \<and>
                 active_trades self1 (ticket p) = Some info \<and> 60 \<le> now - start_time info"
              "journal_ok self1 self' new2" by blast
        have a: "\<forall>e\<in>set new1. \<exists>q\<in>set (p # ps). \<exists>info. req_position (fst e) = Some (ticket q) \<and>
                 active_trades self (ticket q) = Some info \<and> 60 \<le> now - start_time info"
          using n1(2) shadow held by auto
        have b: "\<forall>e\<in>set new2. \<exists>q\<in>set (p # ps). \<exists>info. req_position (fst e) = Some (ticket q) \<and>
                 active_trades self (ticket q) = Some info \<and> 60 \<le> now - start_time info"
          using n2(2) journal_ok_lookup [OF n1(3)] by fastforce
        have "j' = j @ (new1 @ new2)" using n1(1) n2(1) by simp
        moreover have "journal_ok self self' (new1 @ new2)"
          using n1(3) n2(3) by (rule journal_ok_trans)
        ultimately show ?thesis using a b
          by (intro exI [of _ "new1 @ new2"]) auto
      qed
    qed
  qed
qed

lemma manage_trades_journal:
  assumes "manage_trades (recording mt5) symbol (self, (w, j)) = (self', (w', j'))"
  shows "\<exists>new. j' = j @ new \<and>
     (\<forall>e\<in>set new. \<exists>p\<in>set (fetched mt5 symbol w). \<exists>info.
         req_position (fst e) = Some (ticket p) \<and>
         active_trades self (ticket p) = Some info \<and>
         60 \<le> manage_clock mt5 symbol w - start_time info) \<and>
     journal_ok self self' new"
proof (cases "fetched mt5 symbol w")
  case Nil
  then have "self' = self \<and> j' = j"
    using assms by (auto simp: manage_trades_def fetched_def split: option.splits list.splits)
  then show ?thesis by simp
next
  case (Cons p ps)
  then have f: "fst (positions_get mt5 symbol w) = Some (p # ps)"
    by (auto simp: fetched_def split: option.splits)
  let ?w1 = "snd (positions_get mt5 symbol w)"
  let ?w2 = "snd (datetime_now mt5 ?w1)"
  have "manage_loop (recording mt5) symbol (manage_clock mt5 symbol w)
          (fst (symbol_info_tick mt5 symbol ?w2)) (p # ps)
          (self, (snd (symbol_info_tick mt5 symbol ?w2), j)) = (self', (w', j'))"
    using assms f by (simp add: manage_trades_def manage_clock_def)
  from manage_loop_journal [OF this] show ?thesis by (simp add: Cons)
qed


lemma send_order_journal:
  assumes "send_order (recording mt5) signal req (self, (w, j)) = (out, self', (w', j'))"
  shows "j' = j @ [(req, fst (order_send mt5 req w))] \<and> (\<not> filled out \<longrightarrow> self' = self)"
  using assms
  by (auto simp: send_order_def filled_def split: option.splits if_splits prod.splits)

lemma trade_logic_journal:
  assumes "trade_logic (recording mt5) signal symbol (self, (w, j)) = (out, self', (w', j'))"
    and "\<not> filled out"
  shows "\<exists>new. j' = j @ new \<and> journal_ok self self' new"
proof -
  have open_step: "\<exists>new. j' = j @ new \<and> journal_ok self self' new"
    if c: "close_trade (recording mt5) symbol pt None (self, (w, j)) = (self1, (w2, j2))"
    and rest: "(case symbol_info_tick (recording mt5) symbol (w2, j2) of
           (None, w3) \<Rightarrow> (Raised, self1, w3)
         | (Some t, w3) \<Rightarrow> send_order (recording mt5) signal (open_request symbol amt ty (price t))
              (self1, w3)) = (out, self', (w', j'))"
    for pt self1 w2 j2 amt ty price
  proof -
    from close_trade_journal [OF c] obtain new1 where
      n1: "j2 = j @ new1" "journal_ok self self1 new1" by blast
    show ?thesis
    proof (cases "fst (symbol_info_tick mt5 symbol w2)")
      case None
      then have "self' = self1 \<and> j' = j2" using rest by simp
      then show ?thesis using n1 by auto
    next
      case (Some t)
      let ?req = "open_request symbol amt ty (price t)"
      let ?w3 = "snd (symbol_info_tick mt5 symbol w2)"
      have "send_order (recording mt5) signal ?req (self1, (?w3, j2)) = (out, self', (w', j'))"
        using rest Some by simp
      from send_order_journal [OF this] assms(2)
      have s: "j' = j2 @ [(?req, fst (order_send mt5 ?req ?w3))]" "self' = self1" by auto
      have "closed_tickets [(?req, fst (order_send mt5 ?req ?w3))] = []"
        by (simp add: open_request_def)
      then have "journal_ok self1 self' [(?req, fst (order_send mt5 ?req ?w3))]"
        using s(2) by (simp add: journal_ok_def restrict_map_def)
      from journal_ok_trans [OF n1(2) this] show ?thesis using s(1) n1(1) by auto
    qed
  qed
  consider "signal = ''buy''" | "signal \<noteq> ''buy''" "signal = ''sell''"
    | "signal \<noteq> ''buy''" "signal \<noteq> ''sell''" by blast
  then show ?thesis
  proof cases
    case 1
    obtain self1 w2 j2 where
      c: "close_trade (recording mt5) symbol (Some ''sell'') None (self, (w, j)) = (self1, (w2, j2))"
      by (metis surj_pair)
    show ?thesis
      by (rule open_step [OF c, of "trade_amount self1" ORDER_TYPE_BUY ask])
         (use assms(1) 1 c in \<open>auto simp: trade_logic_def split: option.splits\<close>)
  next
    case 2
    obtain self1 w2 j2 where
      c: "close_trade (recording mt5) symbol (Some ''buy'') None (self, (w, j)) = (self1, (w2, j2))"
      by (metis surj_pair)
    show ?thesis
      by (rule open_step [OF c, of "trade_amount self1" ORDER_TYPE_SELL bid])
         (use assms(1) 2 c in \<open>auto simp: trade_logic_def split: option.splits\<close>)
  next
    case 3
    then have "self' = self \<and> j' = j" using assms(1) by (simp add: trade_logic_def)
    then show ?thesis by simp
  qed
qed

lemma execute_trade_journal:
  assumes "execute_trade (recording mt5) signal symbol (self, (w, j)) = (out, self', (w', j'))"
    and "\<not> filled out"
  shows "\<exists>new. j' = j @ new \<and> journal_ok self self' new"
proof (cases "Some signal = last_signal self")
  case True
  then have "self' = self \<and> j' = j" using assms(1) by (simp add: execute_trade_def)
  then show ?thesis by simp
next
  case False
  obtain cur w1 where g: "get_position_type mt5 symbol w = (cur, w1)" by force
  have g': "get_position_type (recording mt5) symbol (w, j) = (cur, (w1, j))"
    using g by (auto simp: get_position_type_def split: prod.splits option.splits list.splits)
  show ?thesis
  proof (cases "cur \<noteq> None \<and> Some signal = cur")
    case True
    then have "self' = self \<and> j' = j"
      using assms(1) False g' by (simp add: execute_trade_def)
    then show ?thesis by simp
  next
    case nomatch: False
    then have "trade_logic (recording mt5) signal symbol (self, (w1, j)) = (out, self', (w', j'))"
      using assms(1) False g' by (simp add: execute_trade_def split: if_splits)
    from trade_logic_journal [OF this assms(2)] show ?thesis .
  qed
qed


lemma close_loop_passes:
  "close_loop (recording mt5) symbol pt ptk ps (self, (w, j)) = (self', (w', j')) \<Longrightarrow>
   \<exists>new. j' = j @ new \<and>
     (\<forall>e\<in>set new. \<exists>p\<in>set ps. req_position (fst e) = Some (ticket p) \<and> passes pt ptk p)"
proof (induction ps arbitrary: self w j)
  case Nil
  then show ?case by simp
next
  case (Cons p ps)
  show ?case
  proof (cases "passes pt ptk p")
    case False
    from Cons.IH [OF Cons.prems [unfolded close_loop_skip [OF False]]]
    show ?thesis by auto
  next
    case True
    note step = Cons.prems [unfolded close_loop_pass [OF True]]
    show ?thesis
    proof (cases "fst (symbol_info_tick mt5 symbol w)")
      case None
      then have "j' = j" using step by simp
      then show ?thesis by simp
    next
      case (Some t)
      let ?req = "closing symbol p t"
      let ?w1 = "snd (symbol_info_tick mt5 symbol w)"
      show ?thesis
      proof (cases "fst (order_send mt5 ?req ?w1)")
        case None
        then have "j' = j @ [(?req, None)]" using step Some by simp
        then show ?thesis using True by auto
      next
        case (Some result)
        let ?self1 = "if retcode result \<noteq> TRADE_RETCODE_DONE then self
                      else self\<lparr>active_trades := (active_trades self)(ticket p := None)\<rparr>"
        have "close_loop (recording mt5) symbol pt ptk ps
                (?self1, (snd (order_send mt5 ?req ?w1), j @ [(?req, Some result)])) =
              (self', (w', j'))"
          using step \<open>fst (symbol_info_tick mt5 symbol w) = Some t\<close> Some
          by (simp split: if_splits)
        from Cons.IH [OF this] obtain new where
          n: "j' = (j @ [(?req, Some result)]) @ new"
             "\<forall>e\<in>set new. \<exists>p\<in>set ps. req_position (fst e) = Some (ticket p) \<and>
                 passes pt ptk p" by blast
        then show ?thesis using True
          by (intro exI [of _ "(?req, Some result) # new"]) auto
      qed
    qed
  qed
qed

lemma close_trade_passes:
  assumes "close_trade (recording mt5) symbol pt ptk (self, (w, j)) = (self', (w', j'))"
  shows "\<exists>new. j' = j @ new \<and>
     (\<forall>e\<in>set new. \<exists>p\<in>set (fetched mt5 symbol w).
         req_position (fst e) = Some (ticket p) \<and> passes pt ptk p)"
proof (cases "fetched mt5 symbol w")
  case Nil
  then have "j' = j"
    using assms by (auto simp: close_trade_def fetched_def split: option.splits list.splits)
  then show ?thesis by simp
next
  case (Cons p ps)
  then have "fst (positions_get mt5 symbol w) = Some (p # ps)"
    by (auto simp: fetched_def split: option.splits)
  then have "close_loop (recording mt5) symbol pt ptk (p # ps)
               (self, (snd (positions_get mt5 symbol w), j)) = (self', (w', j'))"
    using assms by (simp add: close_trade_def)
  from close_loop_passes [OF this] show ?thesis by (simp add: Cons)
qed

lemma closed_tickets_sent:
  "t \<in> set (closed_tickets new) \<Longrightarrow> \<exists>e\<in>set new. req_position (fst e) = Some t"
  by (induction new rule: closed_tickets.induct) (auto split: option.splits if_splits)

lemma passes_sell: "passes (Some ''sell'') None p \<Longrightarrow> ptype p = ORDER_TYPE_SELL"
  by (cases "ptype p") (auto simp: passes_def)

lemma passes_buy: "passes (Some ''buy'') None p \<Longrightarrow> ptype p = ORDER_TYPE_BUY"
  by (cases "ptype p") (auto simp: passes_def)

lemma trade_logic_closes:
  assumes "trade_logic (recording mt5) signal symbol (self, (w, j)) = (out, self', (w', j'))"
  shows "\<exists>new. j' = j @ new \<and>
     (\<forall>t\<in>set (closed_tickets new). \<exists>p\<in>set (fetched mt5 symbol w). ticket p = t \<and>
        ((signal = ''buy'' \<and> ptype p = ORDER_TYPE_SELL) \<or>
         (signal = ''sell'' \<and> ptype p = ORDER_TYPE_BUY)))"
proof -
  have open_step: "\<exists>new. j' = j @ new \<and>
     (\<forall>t\<in>set (closed_tickets new). \<exists>p\<in>set (fetched mt5 symbol w). ticket p = t \<and>
        passes pt None p)"
    if c: "close_trade (recording mt5) symbol pt None (self, (w, j)) = (self1, (w2, j2))"
    and rest: "(case symbol_info_tick (recording mt5) symbol (w2, j2) of
           (None, w3) \<Rightarrow> (Raised, self1, w3)
         | (Some t, w3) \<Rightarrow> send_order (recording mt5) signal (open_request symbol amt ty (price t))
              (self1, w3)) = (out, self', (w', j'))"
    for pt self1 w2 j2 amt ty price
  proof -
    from close_trade_passes [OF c] obtain new1 where
      n1: "j2 = j @ new1"
          "\<forall>e\<in>set new1. \<exists>p\<in>set (fetched mt5 symbol w).
             req_position (fst e) = Some (ticket p) \<and> passes pt None p" by blast
    have cl: "\<forall>t\<in>set (closed_tickets new1). \<exists>p\<in>set (fetched mt5 symbol w). ticket p = t \<and>
        passes pt None p"
      using n1(2) closed_tickets_sent [of _ new1] by fastforce
    show ?thesis
    proof (cases "fst (symbol_info_tick mt5 symbol w2)")
      case None
      then have "j' = j2" using rest by simp
      then show ?thesis using n1(1) cl by auto
    next
      case (Some t)
      let ?req = "open_request symbol amt ty (price t)"
      let ?w3 = "snd (symbol_info_tick mt5 symbol w2)"
      have "send_order (recording mt5) signal ?req (self1, (?w3, j2)) = (out, self', (w', j'))"
        using rest Some by simp
      from send_order_journal [OF this]
      have s: "j' = j2 @ [(?req, fst (order_send mt5 ?req ?w3))]" by auto
      have "closed_tickets [(?req, fst (order_send mt5 ?req ?w3))] = []"
        by (simp add: open_request_def)
      then have "closed_tickets (new1 @ [(?req, fst (order_send mt5 ?req ?w3))]) =
          closed_tickets new1" by simp
      then show ?thesis using s n1(1) cl
        by (intro exI [of _ "new1 @ [(?req, fst (order_send mt5 ?req ?w3))]"]) simp
    qed
  qed
  consider "signal = ''buy''" | "signal \<noteq> ''buy''" "signal = ''sell''"
    | "signal \<noteq> ''buy''" "signal \<noteq> ''sell''" by blast
  then show ?thesis
  proof cases
    case 1
    obtain self1 w2 j2 where
      c: "close_trade (recording mt5) symbol (Some ''sell'') None (self, (w, j)) = (self1, (w2, j2))"
      by (metis surj_pair)
    have "\<exists>new. j' = j @ new \<and>
     (\<forall>t\<in>set (closed_tickets new). \<exists>p\<in>set (fetched mt5 symbol w). ticket p = t \<and>
        passes (Some ''sell'') None p)"
      by (rule open_step [OF c, of "trade_amount self1" ORDER_TYPE_BUY ask])
         (use assms(1) 1 c in \<open>auto simp: trade_logic_def split: option.splits\<close>)
    then obtain new where n: "j' = j @ new"
      and cl: "\<forall>t\<in>set (closed_tickets new). \<exists>p\<in>set (fetched mt5 symbol w). ticket p = t \<and>
        passes (Some ''sell'') None p" by blast
    have "\<forall>t\<in>set (closed_tickets new). \<exists>p\<in>set (fetched mt5 symbol w). ticket p = t \<and>
        ((signal = ''buy'' \<and> ptype p = ORDER_TYPE_SELL) \<or>
         (signal = ''sell'' \<and> ptype p = ORDER_TYPE_BUY))"
    proof
      fix t
      assume "t \<in> set (closed_tickets new)"
      with cl obtain p where p: "p \<in> set (fetched mt5 symbol w)" "ticket p = t"
        "passes (Some ''sell'') None p" by blast
      from p(3) have "ptype p = ORDER_TYPE_SELL" by (rule passes_sell)
      then show "\<exists>p\<in>set (fetched mt5 symbol w). ticket p = t \<and>
        ((signal = ''buy'' \<and> ptype p = ORDER_TYPE_SELL) \<or>
         (signal = ''sell'' \<and> ptype p = ORDER_TYPE_BUY))"
        using p(1,2) 1 by blast
    qed
    then show ?thesis using n by blast
  next
    case 2
    obtain self1 w2 j2 where
      c: "close_trade (recording mt5) symbol (Some ''buy'') None (self, (w, j)) = (self1, (w2, j2))"
      by (metis surj_pair)
    have "\<exists>new. j' = j @ new \<and>
     (\<forall>t\<in>set (closed_tickets new). \<exists>p\<in>set (fetched mt5 symbol w). ticket p = t \<and>
        passes (Some ''buy'') None p)"
      by (rule open_step [OF c, of "trade_amount self1" ORDER_TYPE_SELL bid])
         (use assms(1) 2 c in \<open>auto simp: trade_logic_def split: option.splits\<close>)
    then obtain new where n: "j' = j @ new"
      and cl: "\<forall>t\<in>set (closed_tickets new). \<exists>p\<in>set (fetched mt5 symbol w). ticket p = t \<and>
        passes (Some ''buy'') None p" by blast
    have "\<forall>t\<in>set (closed_tickets new). \<exists>p\<in>set (fetched mt5 symbol w). ticket p = t \<and>
        ((signal = ''buy'' \<and> ptype p = ORDER_TYPE_SELL) \<or>
         (signal = ''sell'' \<and> ptype p = ORDER_TYPE_BUY))"
    proof
      fix t
      assume "t \<in> set (closed_tickets new)"
      with cl obtain p where p: "p \<in> set (fetched mt5 symbol w)" "ticket p = t"
        "passes (Some ''buy'') None p" by blast
      from p(3) have "ptype p = ORDER_TYPE_BUY" by (rule passes_buy)
      then show "\<exists>p\<in>set (fetched mt5 symbol w). ticket p = t \<and>
        ((signal = ''buy'' \<and> ptype p = ORDER_TYPE_SELL) \<or>
         (signal = ''sell'' \<and> ptype p = ORDER_TYPE_BUY))"
        using p(1,2) 2 by blast
    qed
    then show ?thesis using n by blast
  next
    case 3
    then have "j' = j" using assms(1) by (simp add: trade_logic_def)
    then show ?thesis by simp
  qed
qed

lemma execute_trade_closes:
  assumes "execute_trade (recording mt5) signal symbol (self, (w, j)) = (out, self', (w', j'))"
  shows "\<exists>new. j' = j @ new \<and>
     (\<forall>t\<in>set (closed_tickets new).
        \<exists>p\<in>set (fetched mt5 symbol (snd (positions_get mt5 symbol w))). ticket p = t \<and>
        ((signal = ''buy'' \<and> ptype p = ORDER_TYPE_SELL) \<or>
         (signal = ''sell'' \<and> ptype p = ORDER_TYPE_BUY)))"
proof (cases "Some signal = last_signal self")
  case True
  then have "j' = j" using assms(1) by (simp add: execute_trade_def)
  then show ?thesis by simp
next
  case False
  let ?w1 = "snd (positions_get mt5 symbol w)"
  have "snd (get_position_type mt5 symbol w) = ?w1"
    by (simp add: get_position_type_def split: prod.splits option.splits list.splits)
  then obtain cur where g: "get_position_type mt5 symbol w = (cur, ?w1)"
    by (metis prod.collapse)
  have g': "get_position_type (recording mt5) symbol (w, j) = (cur, (?w1, j))"
    using g by (auto simp: get_position_type_def split: prod.splits option.splits list.splits)
  show ?thesis
  proof (cases "cur \<noteq> None \<and> Some signal = cur")
    case True
    then have "j' = j"
      using assms(1) False g' by (simp add: execute_trade_def)
    then show ?thesis by simp
  next
    case nomatch: False
    then have "trade_logic (recording mt5) signal symbol (self, (?w1, j)) = (out, self', (w', j'))"
      using assms(1) False g' by (simp add: execute_trade_def split: if_splits)
    from trade_logic_closes [OF this] show ?thesis .
  qed
qed

lemma restrict_same:
  "m |` (- A) = m \<longleftrightarrow> (\<forall>t\<in>A. m t = None)"
  by (auto simp: restrict_map_def fun_eq_iff)

lemmas run_defs =
  broker_def sim_send_def sim_fill_def accept_def reject_def pos_def market_def holding_def
  recording_def init_def
  execute_trade_def trade_logic_def send_order_def open_request_def get_position_type_def
  close_trade_def close_request_def manage_trades_def exit_policy_def calculate_profit_def
  TRADE_RETCODE_DONE_def TRADE_ACTION_DEAL_def Let_def

section \<open>The shadow map and the terminal's positions\<close>

text \<open>
  A shadow entry can outlive its position. The executor buys (order 7 is accepted, the
  shadow map gets ticket 7); the broker then closes position 7 on its own (a stop-out, a
  manual close), so at second 100 the terminal reports no position. \<^verbatim>\<open>manage_trades\<close>
  and \<^verbatim>\<open>close_trade\<close> return at once (lines 38-39 and 78-80) and the entry for ticket 7
  stays in the shadow map.
\<close>

theorem stale_shadow_entry_counterexample:
  "execute_trade broker ''buy'' ''EURUSD'' (init (1 / 100), market [] 1 0 [accept 7]) =
     (Returned (accept 7), holding [(7, 0, 1)] (Some ''buy''),
      market [pos 7 ORDER_TYPE_BUY 1] 1 0 []) \<and>
   fetched broker ''EURUSD'' (market [] 1 100 []) = [] \<and>
   manage_trades broker ''EURUSD'' (holding [(7, 0, 1)] (Some ''buy''), market [] 1 100 []) =
     (holding [(7, 0, 1)] (Some ''buy''), market [] 1 100 []) \<and>
   close_trade broker ''EURUSD'' None None
       (holding [(7, 0, 1)] (Some ''buy''), market [] 1 100 []) =
     (holding [(7, 0, 1)] (Some ''buy''), market [] 1 100 []) \<and>
   active_trades (holding [(7, 0, 1)] (Some ''buy'')) 7 =
     Some \<lparr>start_time = 0, entry_price = 1\<rparr>"
  by (simp add: run_defs fetched_def)

text \<open>
  C1, as the code has it. \<^verbatim>\<open>manage_trades\<close> and \<^verbatim>\<open>close_trade\<close> submit an order only for
  the ticket of a position that the terminal reported in the \<^verbatim>\<open>positions_get\<close> of this
  very call: the executor never acts on a shadow entry without a live position. A shadow
  entry is removed exactly when a closing order for its ticket is accepted; every other
  entry is kept as it is. When the terminal reports no position, no order is sent and the
  executor is left unchanged, so a shadow entry of a position that is gone is not dropped.
\<close>

theorem closes_only_fetched_positions:
  assumes "r = manage_trades (recording mt5) symbol (self, (w, j)) \<or>
           r = close_trade (recording mt5) symbol position_type position_ticket (self, (w, j))"
  shows "\<exists>new. snd (snd r) = j @ new \<and>
     (\<forall>e\<in>set new. \<exists>p\<in>set (fetched mt5 symbol w). req_position (fst e) = Some (ticket p)) \<and>
     active_trades (fst r) = active_trades self |` (- set (closed_tickets new)) \<and>
     (fetched mt5 symbol w = [] \<longrightarrow> new = [] \<and> fst r = self)"
proof -
  obtain self' w' j' where r: "r = (self', (w', j'))" by (metis surj_pair)
  have "\<exists>new. j' = j @ new \<and>
     (\<forall>e\<in>set new. \<exists>p\<in>set (fetched mt5 symbol w). req_position (fst e) = Some (ticket p)) \<and>
     journal_ok self self' new"
    using assms
  proof
    assume "r = manage_trades (recording mt5) symbol (self, (w, j))"
    then have "manage_trades (recording mt5) symbol (self, (w, j)) = (self', (w', j'))"
      using r by simp
    from manage_trades_journal [OF this] show ?thesis by blast
  next
    assume "r = close_trade (recording mt5) symbol position_type position_ticket (self, (w, j))"
    then have "close_trade (recording mt5) symbol position_type position_ticket (self, (w, j)) =
        (self', (w', j'))"
      using r by simp
    from close_trade_journal [OF this] show ?thesis by blast
  qed
  then obtain new where
    n: "j' = j @ new"
       "\<forall>e\<in>set new. \<exists>p\<in>set (fetched mt5 symbol w). req_position (fst e) = Some (ticket p)"
       "journal_ok self self' new" by blast
  have "new = [] \<and> self' = self" if "fetched mt5 symbol w = []"
  proof -
    from n(2) that have "new = []" by (cases new) auto
    then show ?thesis using n(3) by (simp add: journal_ok_def restrict_map_def)
  qed
  then show ?thesis using n r by (auto simp: journal_ok_def)
qed

theorem closes_only_fetched_positions_witness:
  "manage_trades (recording broker) ''EURUSD''
     (holding [(7, 0, 1)] (Some ''buy''), (market [pos 7 ORDER_TYPE_BUY 1] 2 100 [accept 8], [])) =
   (holding [] (Some ''buy''), (market [] 2 100 [],
     [(close_request ''EURUSD'' (pos 7 ORDER_TYPE_BUY 1) ORDER_TYPE_SELL 2, accept 8)])) \<and>
   (\<exists>new. [(close_request ''EURUSD'' (pos 7 ORDER_TYPE_BUY 1) ORDER_TYPE_SELL 2, accept 8)] =
        [] @ new \<and>
      (\<forall>e\<in>set new. \<exists>p\<in>set (fetched broker ''EURUSD''
             (market [pos 7 ORDER_TYPE_BUY 1] 2 100 [accept 8])).
          req_position (fst e) = Some (ticket p)) \<and>
      active_trades (holding [] (Some ''buy'')) =
        active_trades (holding [(7, 0, 1)] (Some ''buy'')) |` (- set (closed_tickets new)))"
proof -
  let ?start = "(holding [(7, 0, 1)] (Some ''buy''),
                 (market [pos 7 ORDER_TYPE_BUY 1] 2 100 [accept 8], []))"
  have run: "manage_trades (recording broker) ''EURUSD'' ?start =
     (holding [] (Some ''buy''), (market [] 2 100 [],
       [(close_request ''EURUSD'' (pos 7 ORDER_TYPE_BUY 1) ORDER_TYPE_SELL 2, accept 8)]))"
    by (simp add: run_defs)
  from closes_only_fetched_positions
    [of "manage_trades (recording broker) ''EURUSD'' ?start", OF disjI1 [OF refl]]
  show ?thesis unfolding run by auto
qed

section \<open>Repeated signals\<close>

text \<open>
  A repeated signal is ignored although no position is open. The executor buys (order 7);
  at second 100 the position is in profit and \<^verbatim>\<open>manage_trades\<close> closes it; the terminal
  now has no position. A second \<^verbatim>\<open>buy\<close> signal reaches a broker that would accept the order
  (reply 9), and nothing is sent: the journal stays empty and the reply is not consumed.
\<close>

theorem repeated_signal_counterexample:
  "execute_trade broker ''buy'' ''EURUSD'' (init (1 / 100), market [] 1 0 [accept 7]) =
     (Returned (accept 7), holding [(7, 0, 1)] (Some ''buy''),
      market [pos 7 ORDER_TYPE_BUY 1] 1 0 []) \<and>
   manage_trades broker ''EURUSD''
       (holding [(7, 0, 1)] (Some ''buy''), market [pos 7 ORDER_TYPE_BUY 1] 2 100 [accept 8]) =
     (holding [] (Some ''buy''), market [] 2 100 []) \<and>
   fetched broker ''EURUSD'' (market [] 2 100 [accept 9]) = [] \<and>
   execute_trade (recording broker) ''buy'' ''EURUSD''
       (holding [] (Some ''buy''), (market [] 2 100 [accept 9], [])) =
     (Returned None, holding [] (Some ''buy''), (market [] 2 100 [accept 9], []))"
  by (simp add: run_defs fetched_def)

text \<open>
  C2, as the code has it. \<^verbatim>\<open>execute_trade\<close> ignores a signal that equals \<^verbatim>\<open>last_signal\<close>
  before it looks at the positions (line 123): for every terminal, whether or not a
  matching position is open, the call returns \<^verbatim>\<open>None\<close>, asks the terminal nothing, sends
  no order and leaves the executor unchanged.
\<close>

theorem repeated_signal_ignored:
  assumes "last_signal self = Some signal"
  shows "execute_trade (recording mt5) signal symbol (self, (w, j)) =
           (Returned None, self, (w, j))"
  using assms by (simp add: execute_trade_def)

theorem repeated_signal_ignored_witness:
  "last_signal (holding [(7, 0, 1)] (Some ''buy'')) = Some ''buy'' \<and>
   execute_trade (recording broker) ''buy'' ''EURUSD''
       (holding [(7, 0, 1)] (Some ''buy''), (market [pos 7 ORDER_TYPE_BUY 1] 1 10 [accept 9], [])) =
     (Returned None, holding [(7, 0, 1)] (Some ''buy''),
      (market [pos 7 ORDER_TYPE_BUY 1] 1 10 [accept 9], []))"
proof -
  have h: "last_signal (holding [(7, 0, 1)] (Some ''buy'')) = Some ''buy''"
    by (simp add: holding_def)
  from h repeated_signal_ignored [OF h] show ?thesis by simp
qed

section \<open>The holding time\<close>

text \<open>
  C3. Every order that \<^verbatim>\<open>manage_trades\<close> submits is a closing order, and for every ticket
  with a shadow entry whose holding time (the time read at line 41 minus the entry's
  \<^verbatim>\<open>start_time\<close>) is below 60 seconds, no order of this call closes that ticket, whatever
  the prices and hence the profit are.
\<close>

theorem no_close_before_holding_time:
  assumes "r = manage_trades (recording mt5) symbol (self, (w, j))"
  shows "\<exists>new. snd (snd r) = j @ new \<and>
     (\<forall>e\<in>set new. req_position (fst e) \<noteq> None) \<and>
     (\<forall>t info. active_trades self t = Some info \<and>
         manage_clock mt5 symbol w - start_time info < 60 \<longrightarrow>
         (\<forall>e\<in>set new. req_position (fst e) \<noteq> Some t))"
proof -
  obtain self' w' j' where r: "r = (self', (w', j'))" by (metis surj_pair)
  then have "manage_trades (recording mt5) symbol (self, (w, j)) = (self', (w', j'))"
    using assms by simp
  from manage_trades_journal [OF this] obtain new where
    n: "j' = j @ new"
       "\<forall>e\<in>set new. \<exists>p\<in>set (fetched mt5 symbol w). \<exists>info.
          req_position (fst e) = Some (ticket p) \<and>
          active_trades self (ticket p) = Some info \<and>
          60 \<le> manage_clock mt5 symbol w - start_time info" by blast
  have "\<forall>e\<in>set new. req_position (fst e) \<noteq> None" using n(2) by fastforce
  moreover have "\<forall>e\<in>set new. req_position (fst e) \<noteq> Some t"
    if "active_trades self t = Some info" "manage_clock mt5 symbol w - start_time info < 60"
    for t info
    using n(2) that by fastforce
  ultimately show ?thesis using n(1) r by auto
qed

theorem no_close_before_holding_time_witness:
  "manage_trades (recording broker) ''EURUSD''
     (holding [(7, 0, 1), (8, 50, 1)] (Some ''buy''),
      (market [pos 7 ORDER_TYPE_BUY 1, pos 8 ORDER_TYPE_BUY 1] 2 100 [accept 9, accept 10], [])) =
   (holding [(8, 50, 1)] (Some ''buy''),
    (market [pos 8 ORDER_TYPE_BUY 1] 2 100 [accept 10],
     [(close_request ''EURUSD'' (pos 7 ORDER_TYPE_BUY 1) ORDER_TYPE_SELL 2, accept 9)])) \<and>
   active_trades (holding [(7, 0, 1), (8, 50, 1)] (Some ''buy'')) 8 =
     Some \<lparr>start_time = 50, entry_price = 1\<rparr> \<and>
   manage_clock broker ''EURUSD''
     (market [pos 7 ORDER_TYPE_BUY 1, pos 8 ORDER_TYPE_BUY 1] 2 100 [accept 9, accept 10]) - 50 < 60 \<and>
   (\<exists>new. [(close_request ''EURUSD'' (pos 7 ORDER_TYPE_BUY 1) ORDER_TYPE_SELL 2, accept 9)] =
       [] @ new \<and>
     list_all (\<lambda>e. req_position (fst e) \<noteq> Some 8) new)"
proof -
  let ?self = "holding [(7, 0, 1), (8, 50, 1)] (Some ''buy'')"
  let ?w = "market [pos 7 ORDER_TYPE_BUY 1, pos 8 ORDER_TYPE_BUY 1] 2 100 [accept 9, accept 10]"
  have run: "manage_trades (recording broker) ''EURUSD'' (?self, (?w, [])) =
     (holding [(8, 50, 1)] (Some ''buy''),
      (market [pos 8 ORDER_TYPE_BUY 1] 2 100 [accept 10],
       [(close_request ''EURUSD'' (pos 7 ORDER_TYPE_BUY 1) ORDER_TYPE_SELL 2, accept 9)]))"
    by (simp add: run_defs)
  have shadow: "active_trades ?self 8 = Some \<lparr>start_time = 50, entry_price = 1\<rparr>"
    by (simp add: holding_def)
  have young: "manage_clock broker ''EURUSD'' ?w - 50 < 60"
    by (simp add: manage_clock_def broker_def market_def)
  from no_close_before_holding_time
    [of "manage_trades (recording broker) ''EURUSD'' (?self, (?w, []))", OF refl]
  obtain new where
    n: "snd (snd (manage_trades (recording broker) ''EURUSD'' (?self, (?w, [])))) = [] @ new"
       "\<forall>t info. active_trades ?self t = Some info \<and>
           manage_clock broker ''EURUSD'' ?w - start_time info < 60 \<longrightarrow>
           (\<forall>e\<in>set new. req_position (fst e) \<noteq> Some t)" by blast
  from n(2) shadow young have "\<forall>e\<in>set new. req_position (fst e) \<noteq> Some 8" by fastforce
  then have "list_all (\<lambda>e. req_position (fst e) \<noteq> Some 8) new" by (simp add: list_all_iff)
  then show ?thesis using run shadow young n(1) by auto
qed


section \<open>An opening order that is not filled\<close>

text \<open>
  A rejected opening order after an accepted close. The executor sells (order 5, shadow
  entry 5); on a \<^verbatim>\<open>buy\<close> signal \<^verbatim>\<open>close_trade\<close> closes the sell position (accepted, line 115
  deletes entry 5) and the opening order is then rejected: the call returns the rejected
  result and the shadow map has lost entry 5.
\<close>

theorem unfilled_execute_counterexample:
  "execute_trade broker ''sell'' ''EURUSD'' (init (1 / 100), market [] 1 0 [accept 5]) =
     (Returned (accept 5), holding [(5, 0, 1)] (Some ''sell''),
      market [pos 5 ORDER_TYPE_SELL 1] 1 0 []) \<and>
   execute_trade broker ''buy'' ''EURUSD''
       (holding [(5, 0, 1)] (Some ''sell''),
        market [pos 5 ORDER_TYPE_SELL 1] 1 10 [accept 6, reject]) =
     (Returned reject, holding [] (Some ''sell''), market [] 1 10 []) \<and>
   active_trades (holding [(5, 0, 1)] (Some ''sell'')) 5 =
     Some \<lparr>start_time = 0, entry_price = 1\<rparr> \<and>
   active_trades (holding [] (Some ''sell'')) 5 = None"
  by (simp add: run_defs)

text \<open>
  C4, as the code has it. When a call of \<^verbatim>\<open>execute_trade\<close> does not end with a filled
  opening order (the order is rejected, in particular), \<^verbatim>\<open>last_signal\<close> and \<^verbatim>\<open>trade_amount\<close>
  are what they were and no shadow entry is added or changed: the shadow map after the
  call is the map before it without the tickets whose closing order was accepted during
  the call. Each of these tickets is that of a position in the direction opposite to the
  signal, among the positions the terminal reported when \<^verbatim>\<open>close_trade\<close> fetched them. The
  executor is the same as before the call exactly when none of these tickets had a shadow
  entry, so in particular when no closing order was accepted.
\<close>

theorem unfilled_execute_keeps_signal:
  assumes "r = execute_trade (recording mt5) signal symbol (self, (w, j))"
    and "\<not> filled (fst r)"
  shows "\<exists>new. snd (snd (snd r)) = j @ new \<and>
     last_signal (fst (snd r)) = last_signal self \<and>
     trade_amount (fst (snd r)) = trade_amount self \<and>
     active_trades (fst (snd r)) = active_trades self |` (- set (closed_tickets new)) \<and>
     (\<forall>t\<in>set (closed_tickets new).
        \<exists>p\<in>set (fetched mt5 symbol (snd (positions_get mt5 symbol w))). ticket p = t \<and>
        ((signal = ''buy'' \<and> ptype p = ORDER_TYPE_SELL) \<or>
         (signal = ''sell'' \<and> ptype p = ORDER_TYPE_BUY))) \<and>
     (fst (snd r) = self \<longleftrightarrow> (\<forall>t\<in>set (closed_tickets new). active_trades self t = None))"
proof -
  obtain out self' w' j' where r: "r = (out, self', (w', j'))" by (metis surj_pair)
  then have e: "execute_trade (recording mt5) signal symbol (self, (w, j)) = (out, self', (w', j'))"
    and u: "\<not> filled out"
    using assms by simp_all
  from execute_trade_journal [OF e u] obtain new where
    n: "j' = j @ new" "journal_ok self self' new" by blast
  from execute_trade_closes [OF e] obtain new' where
    c: "j' = j @ new'"
       "\<forall>t\<in>set (closed_tickets new').
        \<exists>p\<in>set (fetched mt5 symbol (snd (positions_get mt5 symbol w))). ticket p = t \<and>
        ((signal = ''buy'' \<and> ptype p = ORDER_TYPE_SELL) \<or>
         (signal = ''sell'' \<and> ptype p = ORDER_TYPE_BUY))" by blast
  have same: "new' = new" using n(1) c(1) by simp
  have "self' = self \<longleftrightarrow> active_trades self' = active_trades self"
    using n(2) by (auto simp: journal_ok_def)
  also have "\<dots> \<longleftrightarrow> (\<forall>t\<in>set (closed_tickets new). active_trades self t = None)"
    using n(2) by (simp add: journal_ok_def restrict_same)
  finally have unchanged:
    "self' = self \<longleftrightarrow> (\<forall>t\<in>set (closed_tickets new). active_trades self t = None)" .
  show ?thesis
    using n c(2) unchanged r unfolding same
    by (intro exI [of _ new]) (simp add: journal_ok_def)
qed



theorem unfilled_execute_keeps_signal_witness:
  "execute_trade (recording broker) ''buy'' ''EURUSD''
       (holding [(5, 0, 1)] (Some ''sell''),
        (market [pos 5 ORDER_TYPE_SELL 1] 1 10 [accept 6, reject], [])) =
     (Returned reject, holding [] (Some ''sell''), (market [] 1 10 [],
       [(close_request ''EURUSD'' (pos 5 ORDER_TYPE_SELL 1) ORDER_TYPE_BUY 1, accept 6),
        (open_request ''EURUSD'' (1 / 100) ORDER_TYPE_BUY 1, reject)])) \<and>
   \<not> filled (Returned reject) \<and>
   closed_tickets
       [(close_request ''EURUSD'' (pos 5 ORDER_TYPE_SELL 1) ORDER_TYPE_BUY 1, accept 6),
        (open_request ''EURUSD'' (1 / 100) ORDER_TYPE_BUY 1, reject)] = [5] \<and>
   last_signal (holding [] (Some ''sell'')) = last_signal (holding [(5, 0, 1)] (Some ''sell'')) \<and>
   active_trades (holding [] (Some ''sell'')) =
     active_trades (holding [(5, 0, 1)] (Some ''sell'')) |` (- set [5]) \<and>
   holding [] (Some ''sell'') \<noteq> holding [(5, 0, 1)] (Some ''sell'') \<and>
   execute_trade (recording broker) ''buy'' ''EURUSD''
       (init (1 / 100), (market [pos 5 ORDER_TYPE_SELL 1] 1 10 [accept 6, reject], [])) =
     (Returned reject, init (1 / 100), (market [] 1 10 [],
       [(close_request ''EURUSD'' (pos 5 ORDER_TYPE_SELL 1) ORDER_TYPE_BUY 1, accept 6),
        (open_request ''EURUSD'' (1 / 100) ORDER_TYPE_BUY 1, reject)]))"
proof -
  let ?self = "holding [(5, 0, 1)] (Some ''sell'')"
  let ?w = "market [pos 5 ORDER_TYPE_SELL 1] 1 10 [accept 6, reject]"
  let ?sent = "[(close_request ''EURUSD'' (pos 5 ORDER_TYPE_SELL 1) ORDER_TYPE_BUY 1, accept 6),
                (open_request ''EURUSD'' (1 / 100) ORDER_TYPE_BUY 1, reject)]"
  have run: "execute_trade (recording broker) ''buy'' ''EURUSD'' (?self, (?w, [])) =
     (Returned reject, holding [] (Some ''sell''), (market [] 1 10 [], ?sent))"
    by (simp add: run_defs)
  have fresh: "execute_trade (recording broker) ''buy'' ''EURUSD'' (init (1 / 100), (?w, [])) =
     (Returned reject, init (1 / 100), (market [] 1 10 [], ?sent))"
    by (simp add: run_defs)
  have unfilled: "\<not> filled (Returned reject)"
    by (simp add: filled_def reject_def TRADE_RETCODE_DONE_def)
  have closed: "closed_tickets ?sent = [5]"
    by (simp add: run_defs)
  have "\<not> filled (fst (execute_trade (recording broker) ''buy'' ''EURUSD'' (?self, (?w, []))))"
    using unfilled by (simp add: run)
  from unfilled_execute_keeps_signal [OF refl this] obtain new where
    n: "?sent = [] @ new"
       "last_signal (holding [] (Some ''sell'')) = last_signal ?self"
       "active_trades (holding [] (Some ''sell'')) =
          active_trades ?self |` (- set (closed_tickets new))"
       "holding [] (Some ''sell'') = ?self \<longleftrightarrow>
          (\<forall>t\<in>set (closed_tickets new). active_trades ?self t = None)"
    unfolding run by auto
  have new: "new = ?sent" using n(1) by simp
  have "active_trades ?self 5 \<noteq> None" by (simp add: holding_def)
  then have "holding [] (Some ''sell'') \<noteq> ?self"
    using n(4) closed unfolding new by auto
  then show ?thesis
    using run fresh unfilled closed n(2) n(3) unfolding new by simp
qed

section \<open>The take-profit branch\<close>

text \<open>
  C9. The \<^verbatim>\<open>close_trade\<close> call of line 69 (profit target) is never reached: it sits under
  \<^verbatim>\<open>profit <= 0\<close>. Once the holding time is at least 60 seconds a position is closed by
  the rule \<^verbatim>\<open>profit > 0\<close> or by the stop loss \<^verbatim>\<open>profit <= -5\<close>, and otherwise left open.
\<close>

theorem profit_target_never_fires:
  "exit_policy time_open profit \<noteq> Some At_profit_target \<and>
   (60 \<le> time_open \<longrightarrow>
      exit_policy time_open profit =
        (if 0 < profit then Some Closing_profitable
         else if profit \<le> - 5 then Some At_stop_loss
         else None))"
  by (simp add: exit_policy_def)

theorem profit_target_never_fires_witness:
  "(60::rat) \<le> 100 \<and>
   exit_policy 100 3 = Some Closing_profitable \<and>
   exit_policy 100 (- 7) = Some At_stop_loss \<and>
   exit_policy 100 (- 1) = None \<and>
   exit_policy 100 3 \<noteq> Some At_profit_target"
proof -
  have h: "(60::rat) \<le> 100" by simp
  from profit_target_never_fires [of 100 3] profit_target_never_fires [of 100 "- 7"]
    profit_target_never_fires [of 100 "- 1"] h
  show ?thesis by simp
qed

section \<open>Which position decides\<close>

text \<open>
  C10. \<^verbatim>\<open>get_position_type\<close> answers with the direction of the first position of the
  terminal's list. When the signal differs from \<^verbatim>\<open>last_signal\<close>, \<^verbatim>\<open>execute_trade\<close> is a
  no-op if that first position has the signal's direction, and goes on to close and open
  (lines 139-181) otherwise; the other positions \<open>ps\<close> play no part in the decision.
\<close>

theorem first_position_decides:
  assumes "positions_get mt5 symbol w = (Some (p # ps), w1)"
    and "last_signal self \<noteq> Some signal"
  shows "get_position_type mt5 symbol w =
           (Some (if ptype p = ORDER_TYPE_BUY then ''buy'' else ''sell''), w1) \<and>
         execute_trade mt5 signal symbol (self, w) =
           (if signal = (if ptype p = ORDER_TYPE_BUY then ''buy'' else ''sell'')
            then (Returned None, self, w1)
            else trade_logic mt5 signal symbol (self, w1))"
  using assms by (auto simp: get_position_type_def execute_trade_def)

theorem first_position_decides_witness:
  "positions_get broker ''EURUSD''
       (market [pos 1 ORDER_TYPE_SELL 1, pos 2 ORDER_TYPE_BUY 1] 1 10 [accept 3, accept 4]) =
     (Some (pos 1 ORDER_TYPE_SELL 1 # [pos 2 ORDER_TYPE_BUY 1]),
      market [pos 1 ORDER_TYPE_SELL 1, pos 2 ORDER_TYPE_BUY 1] 1 10 [accept 3, accept 4]) \<and>
   last_signal (holding [] None) \<noteq> Some ''buy'' \<and>
   execute_trade broker ''buy'' ''EURUSD''
       (holding [] None,
        market [pos 1 ORDER_TYPE_SELL 1, pos 2 ORDER_TYPE_BUY 1] 1 10 [accept 3, accept 4]) =
     trade_logic broker ''buy'' ''EURUSD''
       (holding [] None,
        market [pos 1 ORDER_TYPE_SELL 1, pos 2 ORDER_TYPE_BUY 1] 1 10 [accept 3, accept 4]) \<and>
   trade_logic broker ''buy'' ''EURUSD''
       (holding [] None,
        market [pos 1 ORDER_TYPE_SELL 1, pos 2 ORDER_TYPE_BUY 1] 1 10 [accept 3, accept 4]) =
     (Returned (accept 4), holding [(4, 10, 1)] (Some ''buy''),
      market [pos 2 ORDER_TYPE_BUY 1, pos 4 ORDER_TYPE_BUY 1] 1 10 []) \<and>
   execute_trade broker ''buy'' ''EURUSD''
       (holding [] None,
        market [pos 2 ORDER_TYPE_BUY 1, pos 1 ORDER_TYPE_SELL 1] 1 10 [accept 3, accept 4]) =
     (Returned None, holding [] None,
      market [pos 2 ORDER_TYPE_BUY 1, pos 1 ORDER_TYPE_SELL 1] 1 10 [accept 3, accept 4])"
proof -
  let ?w = "market [pos 1 ORDER_TYPE_SELL 1, pos 2 ORDER_TYPE_BUY 1] 1 10 [accept 3, accept 4]"
  have fetch: "positions_get broker ''EURUSD'' ?w =
      (Some (pos 1 ORDER_TYPE_SELL 1 # [pos 2 ORDER_TYPE_BUY 1]), ?w)"
    by (simp add: broker_def market_def)
  have fresh: "last_signal (holding [] None) \<noteq> Some ''buy''"
    by (simp add: holding_def)
  have logic: "trade_logic broker ''buy'' ''EURUSD'' (holding [] None, ?w) =
     (Returned (accept 4), holding [(4, 10, 1)] (Some ''buy''),
      market [pos 2 ORDER_TYPE_BUY 1, pos 4 ORDER_TYPE_BUY 1] 1 10 [])"
    by (simp add: run_defs)
  have buy_first: "execute_trade broker ''buy'' ''EURUSD''
       (holding [] None,
        market [pos 2 ORDER_TYPE_BUY 1, pos 1 ORDER_TYPE_SELL 1] 1 10 [accept 3, accept 4]) =
     (Returned None, holding [] None,
      market [pos 2 ORDER_TYPE_BUY 1, pos 1 ORDER_TYPE_SELL 1] 1 10 [accept 3, accept 4])"
    by (simp add: run_defs)
  from first_position_decides [OF fetch fresh]
  have "execute_trade broker ''buy'' ''EURUSD'' (holding [] None, ?w) =
      trade_logic broker ''buy'' ''EURUSD'' (holding [] None, ?w)"
    by (simp add: pos_def)
  then show ?thesis using fetch fresh logic buy_first by simp
qed

section \<open>The signal generator\<close>

lemmas frame_defs =
  statements_def statements_with_def and_then_def getitem_def setitem_def gt_cols_def
  astype_int_def diff_def eq_scalar_def lt_scalar_def trend_with_def rolling_with_def
  loc_set_def drop_cols_def

lemma to_float64_numeric: "as_floats c = Inr xs \<Longrightarrow> to_float64 c = Inr xs"
  by (cases c) auto

lemma run_with_numeric:
  assumes "columns d ''close'' = Some c" and "to_float64 c = Inr xs"
  shows "\<exists>d'. run (statements_with wm st) d = Inr d' \<and>
     columns d' ''SMA_Short'' = Some (Floats (map (wm 3 xs) [0..<length xs])) \<and>
     columns d' ''SMA_Long'' = Some (Floats (map (wm 7 xs) [0..<length xs])) \<and>
     columns d' ''signal'' =
       Some (Objects (signal_of st (nrows d) (map (wm 3 xs) [0..<length xs])
                        (map (wm 7 xs) [0..<length xs])))"
  using assms
  by (simp add: frame_defs signal_of_def change_column_def Let_def)

lemma change_column_length [simp]:
  "length (change_column short long) = min (length short) (length long)"
  by (simp add: change_column_def Let_def)

lemma change_column_nth:
  "length short = n \<Longrightarrow> length long = n \<Longrightarrow> i < n \<Longrightarrow>
   change_column short long ! i =
     (if i = 0 then None
      else Some (of_int (indicator short long i - indicator short long (i - 1))))"
  by (simp add: change_column_def Let_def indicator_def)

lemma signal_of_length [simp]:
  "length short = n \<Longrightarrow> length long = n \<Longrightarrow> length (signal_of st n short long) = n"
  by (simp add: signal_of_def)

lemma signal_of_nth:
  "length short = n \<Longrightarrow> length long = n \<Longrightarrow> i < n \<Longrightarrow>
   signal_of st n short long ! i =
     (if flt (st (short ! i) (long ! i)) (Some min_trend_strength) then None
      else if feq (change_column short long ! i) (Some (- 1)) then Some ''sell''
      else if feq (change_column short long ! i) (Some 1) then Some ''buy''
      else None)"
  by (simp add: signal_of_def)

lemma indicator_01: "indicator short long i = 0 \<or> indicator short long i = 1"
  by (simp add: indicator_def)

text \<open>
  C5. When a statement of the \<^verbatim>\<open>try\<close> block raises, \<^verbatim>\<open>apply_strategy\<close> returns (the
  function is total: the handler of line 51 catches every exception) and what it returns
  is the input frame, with no column added and no value changed: the only statement that
  can raise is the first one, line 16, when the \<^verbatim>\<open>close\<close> column is missing or holds a
  cell that is not a number, and it raises before it assigns.
\<close>

theorem error_returns_input:
  assumes "run statements data = Inl (e, data')"
  shows "data' = data \<and> apply_strategy data = data"
proof (cases "columns data ''close''")
  case None
  then have "run statements data = Inl (KeyError ''close'', data)"
    by (simp add: frame_defs)
  then show ?thesis using assms by (simp add: apply_strategy_def apply_strategy_with_def statements_def)
next
  case (Some c)
  show ?thesis
  proof (cases "to_float64 c")
    case (Inl err)
    then have "run statements data = Inl (err, data)"
      using Some by (simp add: frame_defs)
    then show ?thesis using assms by (simp add: apply_strategy_def apply_strategy_with_def statements_def)
  next
    case (Inr xs)
    from run_with_numeric [OF Some Inr, of window_mean strength] assms show ?thesis
      by (auto simp: statements_def)
  qed
qed

theorem error_returns_input_witness:
  "run statements \<lparr>nrows = 2, columns = [''open'' \<mapsto> Floats [Some 1, Some 2]]\<rparr> =
     Inl (KeyError ''close'', \<lparr>nrows = 2, columns = [''open'' \<mapsto> Floats [Some 1, Some 2]]\<rparr>) \<and>
   apply_strategy \<lparr>nrows = 2, columns = [''open'' \<mapsto> Floats [Some 1, Some 2]]\<rparr> =
     \<lparr>nrows = 2, columns = [''open'' \<mapsto> Floats [Some 1, Some 2]]\<rparr>"
proof -
  let ?d = "\<lparr>nrows = 2, columns = [''open'' \<mapsto> Floats [Some 1, Some 2]]\<rparr>"
  have raised: "run statements ?d = Inl (KeyError ''close'', ?d)"
    by (simp add: frame_defs)
  from raised error_returns_input [OF raised] show ?thesis by simp
qed

text \<open>
  C7. For every series of fewer than 7 bars (a frame whose \<^verbatim>\<open>close\<close> column is numeric)
  the signal column is \<^verbatim>\<open>None\<close> at every index.
\<close>

theorem short_series_no_signal:
  assumes "columns d ''close'' = Some c"
    and "as_floats c = Inr cs"
    and "nrows d = length cs"
    and "length cs < 7"
  shows "columns (apply_strategy d) ''signal'' = Some (Objects (replicate (length cs) None))"
proof -
  let ?short = "map (window_mean 3 cs) [0..<length cs]"
  let ?long = "map (window_mean 7 cs) [0..<length cs]"
  let ?sig = "signal_of strength (length cs) ?short ?long"
  have flat: "indicator ?short ?long i = 0" if "i < length cs" for i
    using that assms(4) by (simp add: indicator_def window_mean_def)
  have "?sig = replicate (length cs) None"
  proof (rule nth_equalityI)
    show "length ?sig = length (replicate (length cs) None)" by simp
  next
    fix i
    assume "i < length ?sig"
    then have i: "i < length cs" by simp
    have "change_column ?short ?long ! i = None \<or> change_column ?short ?long ! i = Some 0"
      using i flat [of i] flat [of "i - 1"] by (simp add: change_column_nth [of _ "length cs"])
    then have "\<not> feq (change_column ?short ?long ! i) (Some (- 1))"
      and "\<not> feq (change_column ?short ?long ! i) (Some 1)"
      by auto
    then show "?sig ! i = replicate (length cs) None ! i"
      using i by (simp add: signal_of_nth [of _ "length cs"])
  qed
  then show ?thesis
    using run_with_numeric [OF assms(1) to_float64_numeric [OF assms(2)], of window_mean strength]
      assms(3)
    by (auto simp: apply_strategy_def apply_strategy_with_def)
qed

theorem short_series_no_signal_witness:
  "columns (bars [1, 2, 3, 4, 5, 1]) ''close'' = Some (Floats (map Some [1, 2, 3, 4, 5, 1])) \<and>
   as_floats (Floats (map Some [1, 2, 3, 4, 5, 1])) = Inr (map Some [1, 2, 3, 4, 5, 1]) \<and>
   nrows (bars [1, 2, 3, 4, 5, 1]) = length (map Some [1, 2, 3, 4, 5, 1 :: rat]) \<and>
   length (map Some [1, 2, 3, 4, 5, 1 :: rat]) < 7 \<and>
   columns (apply_strategy (bars [1, 2, 3, 4, 5, 1])) ''signal'' =
     Some (Objects [None, None, None, None, None, None])"
proof -
  let ?cs = "map Some [1, 2, 3, 4, 5, 1 :: rat]"
  have c: "columns (bars [1, 2, 3, 4, 5, 1]) ''close'' = Some (Floats ?cs)"
    by (simp add: bars_def)
  have n: "nrows (bars [1, 2, 3, 4, 5, 1]) = length ?cs" by (simp add: bars_def)
  have short: "length ?cs < 7" by simp
  have f: "as_floats (Floats ?cs) = Inr ?cs" by simp
  from short_series_no_signal [OF c f n short] c n short show ?thesis
    by (simp add: numeral_nat)
qed

text \<open>
  C8. For every series of bars (a frame whose \<^verbatim>\<open>close\<close> column can be cast to floats) and
  whatever float64 makes of the rolling means and of the trend strength (every \<open>wm\<close> and
  \<open>st\<close>): the returned frame holds the two columns of averages and a signal column with one
  cell per bar, each \<^verbatim>\<open>None\<close>, \<^verbatim>\<open>buy\<close> or \<^verbatim>\<open>sell\<close>. A \<^verbatim>\<open>buy\<close> stands only at an index after the
  first where the crossover indicator of these averages (1 iff the short average is above
  the long one) goes from 0 to 1, a \<^verbatim>\<open>sell\<close> only where it goes from 1 to 0.
\<close>

theorem signal_only_at_crossover_change:
  assumes "columns d ''close'' = Some c"
    and "to_float64 c = Inr cs"
    and "nrows d = length cs"
  shows "\<exists>short long sig.
     columns (apply_strategy_with wm st d) ''SMA_Short'' = Some (Floats short) \<and>
     columns (apply_strategy_with wm st d) ''SMA_Long'' = Some (Floats long) \<and>
     columns (apply_strategy_with wm st d) ''signal'' = Some (Objects sig) \<and>
     length short = length cs \<and> length long = length cs \<and> length sig = length cs \<and>
     (\<forall>i<length cs.
        (sig ! i = Some ''buy'' \<longrightarrow>
           0 < i \<and> indicator short long (i - 1) = 0 \<and> indicator short long i = 1) \<and>
        (sig ! i = Some ''sell'' \<longrightarrow>
           0 < i \<and> indicator short long (i - 1) = 1 \<and> indicator short long i = 0) \<and>
        (sig ! i = None \<or> sig ! i = Some ''buy'' \<or> sig ! i = Some ''sell''))"
proof -
  let ?short = "map (wm 3 cs) [0..<length cs]"
  let ?long = "map (wm 7 cs) [0..<length cs]"
  let ?sig = "signal_of st (length cs) ?short ?long"
  let ?change = "change_column ?short ?long"
  let ?out = "apply_strategy_with wm st d"
  have cols: "columns ?out ''SMA_Short'' = Some (Floats ?short)"
    "columns ?out ''SMA_Long'' = Some (Floats ?long)"
    "columns ?out ''signal'' = Some (Objects ?sig)"
    using run_with_numeric [OF assms(1,2), of wm st] assms(3)
    by (auto simp: apply_strategy_with_def)
  have "(?sig ! i = Some ''buy'' \<longrightarrow>
           0 < i \<and> indicator ?short ?long (i - 1) = 0 \<and> indicator ?short ?long i = 1) \<and>
        (?sig ! i = Some ''sell'' \<longrightarrow>
           0 < i \<and> indicator ?short ?long (i - 1) = 1 \<and> indicator ?short ?long i = 0) \<and>
        (?sig ! i = None \<or> ?sig ! i = Some ''buy'' \<or> ?sig ! i = Some ''sell'')"
    if i: "i < length cs" for i
  proof (cases "i = 0")
    case True
    then have "?change ! i = None" using i by (simp add: change_column_nth [of _ "length cs"])
    then show ?thesis using i by (simp add: signal_of_nth [of _ "length cs"])
  next
    case False
    then have ch: "?change ! i =
        Some (of_int (indicator ?short ?long i - indicator ?short ?long (i - 1)))"
      using i by (simp add: change_column_nth [of _ "length cs"])
    have buy: "feq (?change ! i) (Some 1) \<longleftrightarrow>
        indicator ?short ?long (i - 1) = 0 \<and> indicator ?short ?long i = 1"
      using indicator_01 [of ?short ?long i] indicator_01 [of ?short ?long "i - 1"]
      by (auto simp: ch)
    have sell: "feq (?change ! i) (Some (- 1)) \<longleftrightarrow>
        indicator ?short ?long (i - 1) = 1 \<and> indicator ?short ?long i = 0"
      using indicator_01 [of ?short ?long i] indicator_01 [of ?short ?long "i - 1"]
      by (auto simp: ch)
    show ?thesis using i False by (auto simp: signal_of_nth [of _ "length cs"] buy sell)
  qed
  then show ?thesis using cols
    by (intro exI [of _ ?short] exI [of _ ?long] exI [of _ ?sig]) simp
qed


lemmas eval_defs =
  apply_strategy_def apply_strategy_with_def bars_def frame_defs window_mean_def mean_def
  strength_def fabs_def min_trend_strength_def tie_mean_def tie_closes_def upt_rec numeral_nat

theorem signal_only_at_crossover_change_witness:
  "columns (bars [1, 1, 1, 1, 1, 1, 1, 2, 2, 2, 0, 0]) ''close'' =
     Some (Floats (map Some [1, 1, 1, 1, 1, 1, 1, 2, 2, 2, 0, 0])) \<and>
   to_float64 (Floats (map Some [1, 1, 1, 1, 1, 1, 1, 2, 2, 2, 0, 0])) =
     Inr (map Some [1, 1, 1, 1, 1, 1, 1, 2, 2, 2, 0, 0]) \<and>
   nrows (bars [1, 1, 1, 1, 1, 1, 1, 2, 2, 2, 0, 0]) =
     length (map Some [1, 1, 1, 1, 1, 1, 1, 2, 2, 2, 0, 0 :: rat]) \<and>
   columns (apply_strategy_with window_mean strength (bars [1, 1, 1, 1, 1, 1, 1, 2, 2, 2, 0, 0]))
       ''signal'' =
     Some (Objects [None, None, None, None, None, None, None, Some ''buy'',
                    None, None, None, Some ''sell'']) \<and>
   (\<exists>short long.
      columns (apply_strategy_with window_mean strength
                 (bars [1, 1, 1, 1, 1, 1, 1, 2, 2, 2, 0, 0])) ''SMA_Short'' =
        Some (Floats short) \<and>
      columns (apply_strategy_with window_mean strength
                 (bars [1, 1, 1, 1, 1, 1, 1, 2, 2, 2, 0, 0])) ''SMA_Long'' =
        Some (Floats long) \<and>
      indicator short long 6 = 0 \<and> indicator short long 7 = 1 \<and>
      indicator short long 10 = 1 \<and> indicator short long 11 = 0) \<and>
   columns (apply_strategy_with tie_mean strength (bars tie_closes)) ''signal'' =
     Some (Objects [None, None, None, None, None, None, None, Some ''sell'']) \<and>
   (\<exists>short long.
      columns (apply_strategy_with tie_mean strength (bars tie_closes)) ''SMA_Short'' =
        Some (Floats short) \<and>
      columns (apply_strategy_with tie_mean strength (bars tie_closes)) ''SMA_Long'' =
        Some (Floats long) \<and>
      indicator short long 6 = 1 \<and> indicator short long 7 = 0)"
proof -
  let ?closes = "[1, 1, 1, 1, 1, 1, 1, 2, 2, 2, 0, 0 :: rat]"
  let ?cs = "map Some ?closes"
  let ?sig = "[None, None, None, None, None, None, None, Some ''buy'',
               None, None, None, Some ''sell'']"
  let ?out = "apply_strategy_with window_mean strength (bars ?closes)"
  have c: "columns (bars ?closes) ''close'' = Some (Floats ?cs)" by (simp add: bars_def)
  have f: "to_float64 (Floats ?cs) = Inr ?cs" by simp
  have n: "nrows (bars ?closes) = length ?cs" by (simp add: bars_def)
  have out: "columns ?out ''signal'' = Some (Objects ?sig)"
    by (simp add: eval_defs)
  from signal_only_at_crossover_change [OF c f n, of window_mean strength]
  obtain short long sig where
    s: "columns ?out ''SMA_Short'' = Some (Floats short)"
       "columns ?out ''SMA_Long'' = Some (Floats long)"
       "columns ?out ''signal'' = Some (Objects sig)"
       "\<forall>i<length ?cs.
          (sig ! i = Some ''buy'' \<longrightarrow>
             0 < i \<and> indicator short long (i - 1) = 0 \<and> indicator short long i = 1) \<and>
          (sig ! i = Some ''sell'' \<longrightarrow>
             0 < i \<and> indicator short long (i - 1) = 1 \<and> indicator short long i = 0)"
    by blast
  have sig: "sig = ?sig" using s(3) out by simp
  have "sig ! 7 = Some ''buy''" and "sig ! 11 = Some ''sell''" by (simp_all add: sig)
  moreover have "(7::nat) < length ?cs" and "(11::nat) < length ?cs" by simp_all
  ultimately have "indicator short long (7 - 1) = 0 \<and> indicator short long 7 = 1"
    and "indicator short long (11 - 1) = 1 \<and> indicator short long 11 = 0"
    using s(4) by blast+
  then have exact: "\<exists>short long.
      columns ?out ''SMA_Short'' = Some (Floats short) \<and>
      columns ?out ''SMA_Long'' = Some (Floats long) \<and>
      indicator short long 6 = 0 \<and> indicator short long 7 = 1 \<and>
      indicator short long 10 = 1 \<and> indicator short long 11 = 0"
    using s(1,2) by (intro exI [of _ short] exI [of _ long]) simp
  let ?ts = "map Some tie_closes"
  let ?tout = "apply_strategy_with tie_mean strength (bars tie_closes)"
  let ?tsig = "[None, None, None, None, None, None, None, Some ''sell'']"
  have tc: "columns (bars tie_closes) ''close'' = Some (Floats ?ts)" by (simp add: bars_def)
  have tf: "to_float64 (Floats ?ts) = Inr ?ts" by simp
  have tn: "nrows (bars tie_closes) = length ?ts" by (simp add: bars_def)
  have tout: "columns ?tout ''signal'' = Some (Objects ?tsig)"
    by code_simp
  from signal_only_at_crossover_change [OF tc tf tn, of tie_mean strength]
  obtain tshort tlong tsig where
    t: "columns ?tout ''SMA_Short'' = Some (Floats tshort)"
       "columns ?tout ''SMA_Long'' = Some (Floats tlong)"
       "columns ?tout ''signal'' = Some (Objects tsig)"
       "\<forall>i<length ?ts.
          (tsig ! i = Some ''sell'' \<longrightarrow>
             0 < i \<and> indicator tshort tlong (i - 1) = 1 \<and> indicator tshort tlong i = 0)"
    by blast
  have tsig: "tsig = ?tsig" using t(3) tout by simp
  have "tsig ! 7 = Some ''sell''" by (simp add: tsig)
  moreover have "(7::nat) < length ?ts" by (simp add: tie_closes_def)
  ultimately have "indicator tshort tlong (7 - 1) = 1 \<and> indicator tshort tlong 7 = 0"
    using t(4) by blast
  then have tie: "\<exists>short long.
      columns ?tout ''SMA_Short'' = Some (Floats short) \<and>
      columns ?tout ''SMA_Long'' = Some (Floats long) \<and>
      indicator short long 6 = 1 \<and> indicator short long 7 = 0"
    using t(1,2) by (intro exI [of _ tshort] exI [of _ tlong]) simp
  show ?thesis using c f n out exact tout tie by blast
qed

text \<open>
  C6. For the eight bars with closes 1, 1, 1, 1, 1, 1, 1, 2 the signal column is \<^verbatim>\<open>buy\<close> at
  index 7 and \<^verbatim>\<open>None\<close> at every other index; the trend strength at index 7 is 50/3
  percent, above the minimum of 0.001.
\<close>

theorem eight_bar_scenario:
  "columns (apply_strategy (bars [1, 1, 1, 1, 1, 1, 1, 2])) ''signal'' =
     Some (Objects [None, None, None, None, None, None, None, Some ''buy'']) \<and>
   strength (window_mean 3 (map Some [1, 1, 1, 1, 1, 1, 1, 2]) 7)
            (window_mean 7 (map Some [1, 1, 1, 1, 1, 1, 1, 2]) 7) = Some (50 / 3) \<and>
   min_trend_strength < 50 / 3"
  by (simp add: eval_defs)

end
